theory Spec2Isabelle
  imports Complex_Main "HOL-Library.Stream"
begin

section \<open>Double-precision values\<close>

text \<open>
  The C++ source computes with \<^verbatim>\<open>double\<close> (and, in the photon header, \<^verbatim>\<open>float\<close>).
  A value is modelled as a real number or one of the three special values of IEEE 754
  arithmetic, so that a division by zero is a branch of the model and not the
  \<open>x / 0 = 0\<close> of HOL's reals.  Rounding and overflow of finite results are idealised:
  a finite operation on finite operands returns the exact real result.  The two zeros
  are not distinguished; a zero divisor is taken as \<open>+0\<close>, which is what the divisors
  of the functions below are when they vanish (a \<^verbatim>\<open>std::max(0., x)\<close> that returns
  its first argument, or a sum of non-negative numbers).
\<close>

datatype double = Num real | PosInf | NegInf | NaN

fun d_neg :: "double \<Rightarrow> double" where
  "d_neg (Num a) = Num (- a)"
| "d_neg PosInf = NegInf"
| "d_neg NegInf = PosInf"
| "d_neg NaN = NaN"

fun d_add :: "double \<Rightarrow> double \<Rightarrow> double" where
  "d_add (Num a) (Num b) = Num (a + b)"
| "d_add NaN _ = NaN"
| "d_add _ NaN = NaN"
| "d_add PosInf NegInf = NaN"
| "d_add NegInf PosInf = NaN"
| "d_add PosInf _ = PosInf"
| "d_add NegInf _ = NegInf"
| "d_add (Num a) b = b"

definition d_sub :: "double \<Rightarrow> double \<Rightarrow> double" where
  "d_sub x y = d_add x (d_neg y)"

fun d_mul :: "double \<Rightarrow> double \<Rightarrow> double" where
  "d_mul (Num a) (Num b) = Num (a * b)"
| "d_mul NaN _ = NaN"
| "d_mul _ NaN = NaN"
| "d_mul (Num a) PosInf = (if a = 0 then NaN else if 0 < a then PosInf else NegInf)"
| "d_mul (Num a) NegInf = (if a = 0 then NaN else if 0 < a then NegInf else PosInf)"
| "d_mul PosInf (Num b) = (if b = 0 then NaN else if 0 < b then PosInf else NegInf)"
| "d_mul NegInf (Num b) = (if b = 0 then NaN else if 0 < b then NegInf else PosInf)"
| "d_mul PosInf PosInf = PosInf"
| "d_mul PosInf NegInf = NegInf"
| "d_mul NegInf PosInf = NegInf"
| "d_mul NegInf NegInf = PosInf"

fun d_div :: "double \<Rightarrow> double \<Rightarrow> double" where
  "d_div (Num a) (Num b) =
     (if b \<noteq> 0 then Num (a / b)
      else if a = 0 then NaN
      else if 0 < a then PosInf else NegInf)"
| "d_div NaN _ = NaN"
| "d_div _ NaN = NaN"
| "d_div (Num a) PosInf = Num 0"
| "d_div (Num a) NegInf = Num 0"
| "d_div PosInf (Num b) = (if 0 \<le> b then PosInf else NegInf)"
| "d_div NegInf (Num b) = (if 0 \<le> b then NegInf else PosInf)"
| "d_div PosInf _ = NaN"
| "d_div NegInf _ = NaN"

text \<open>The comparison \<^verbatim>\<open>x < y\<close>: false as soon as one operand is not a number.\<close>

fun d_less :: "double \<Rightarrow> double \<Rightarrow> bool" where
  "d_less (Num a) (Num b) = (a < b)"
| "d_less (Num a) PosInf = True"
| "d_less (Num a) NegInf = False"
| "d_less NegInf (Num b) = True"
| "d_less NegInf PosInf = True"
| "d_less NegInf NegInf = False"
| "d_less PosInf _ = False"
| "d_less NaN _ = False"
| "d_less _ NaN = False"

text \<open>\<^verbatim>\<open>x == y\<close>, \<^verbatim>\<open>x <= y\<close>, \<^verbatim>\<open>x > y\<close> and \<^verbatim>\<open>x >= y\<close>.\<close>

definition d_eq :: "double \<Rightarrow> double \<Rightarrow> bool" where
  "d_eq x y = (x \<noteq> NaN \<and> x = y)"

definition d_le :: "double \<Rightarrow> double \<Rightarrow> bool" where
  "d_le x y = (d_less x y \<or> d_eq x y)"

definition d_greater :: "double \<Rightarrow> double \<Rightarrow> bool" where
  "d_greater x y = d_less y x"

definition d_ge :: "double \<Rightarrow> double \<Rightarrow> bool" where
  "d_ge x y = d_le y x"

text \<open>\<^verbatim>\<open>std::max(a, b)\<close> is \<^verbatim>\<open>(a < b) ? b : a\<close>.\<close>

definition d_max :: "double \<Rightarrow> double \<Rightarrow> double" where
  "d_max a b = (if d_less a b then b else a)"

fun d_abs :: "double \<Rightarrow> double" where
  "d_abs (Num a) = Num \<bar>a\<bar>"
| "d_abs PosInf = PosInf"
| "d_abs NegInf = PosInf"
| "d_abs NaN = NaN"

fun d_exp :: "double \<Rightarrow> double" where
  "d_exp (Num a) = Num (exp a)"
| "d_exp PosInf = PosInf"
| "d_exp NegInf = Num 0"
| "d_exp NaN = NaN"

fun d_sin :: "double \<Rightarrow> double" where
  "d_sin (Num a) = Num (sin a)"
| "d_sin _ = NaN"

section \<open>Constants (\<^verbatim>\<open>constants.h\<close>)\<close>

definition hbarc :: double where
  "hbarc = Num 0.197327053"

definition fm2_mb :: double where
  "fm2_mb = Num 0.1"

text \<open>
  \<^verbatim>\<open>really_small\<close> is declared \<^verbatim>\<open>constexpr float really_small = 1.0e-6\<close>: its value is the
  single-precision number nearest to \<open>1/1000000\<close>, which is \<open>8796093 / 2^43\<close>, a little below
  \<open>1/1000000\<close>.  The comparisons of the source promote it unchanged.
\<close>

definition really_small :: double where
  "really_small = Num (8796093 / 8796093022208)"

definition M_PI :: double where
  "M_PI = Num pi"

section \<open>Data model\<close>

text \<open>
  The declarations of \<^verbatim>\<open>PdgCode\<close>, \<^verbatim>\<open>ParticleType\<close>, \<^verbatim>\<open>ParticleData\<close>,
  \<^verbatim>\<open>CollisionBranch\<close> and \<^verbatim>\<open>ProcessType\<close> are not part of the two source files.
  Each is a record of the observers that the functions of \<^verbatim>\<open>scatteraction.cc\<close> call on it;
  what an observer returns is an input of the model.
\<close>

datatype ProcessType = Elastic | TwoToOne | TwoToTwo | StringSoft | StringHard

record PdgCode =
  decimal :: int
  is_pion :: bool
  deexcited_baryon_number :: int
  \<comment> \<open>\<^verbatim>\<open>baryon_number()\<close> of the code after \<^verbatim>\<open>deexcite()\<close>\<close>

record ParticleType =
  pdgcode :: PdgCode
  mass :: double
  charge :: int
  baryon_number :: int
  spin :: nat
  is_stable :: bool
  is_nucleon :: bool
  antiparticle_sign :: int
  antiparticle_pdgcode :: PdgCode
  \<comment> \<open>\<^verbatim>\<open>get_antiparticle()->pdgcode()\<close>\<close>

record ParticleData =
  ptype :: ParticleType
  formation_time :: double
  cross_section_scaling_factor :: double

record CollisionBranch =
  particle_types :: "ParticleType list"
  weight :: double
  get_type :: ProcessType

datatype error =
    StringProcessNotInitialized
    \<comment> \<open>\<^verbatim>\<open>std::runtime_error("string_process_ should be initialized.")\<close>\<close>
  | AssertionFailed
  | SubprocessNotSpecified
    \<comment> \<open>\<^verbatim>\<open>std::runtime_error("soft string subprocess is not specified.")\<close>\<close>
  | TooManyTries
    \<comment> \<open>\<^verbatim>\<open>std::runtime_error("too many tries in string_excitation_soft().")\<close>\<close>
  | NullStringProcess
    \<comment> \<open>\<^verbatim>\<open>string_process_\<close> dereferenced while null\<close>

text \<open>
  The soft-string collaborator \<^verbatim>\<open>StringProcess\<close>, reached through the pointer
  \<^verbatim>\<open>string_process_\<close>.  It is stateful: \<open>'g\<close> is its internal state, every sampling call
  returns its success flag and the next state.
\<close>

record 'g StringProcess =
  cross_sections_diffractive :: "int \<Rightarrow> int \<Rightarrow> double \<Rightarrow> double \<times> double \<times> double"
  init :: "ParticleData \<times> ParticleData \<Rightarrow> double \<Rightarrow> double \<Rightarrow> 'g \<Rightarrow> 'g"
  next_SDiff :: "bool \<Rightarrow> 'g \<Rightarrow> bool \<times> 'g"
  next_DDiff :: "'g \<Rightarrow> bool \<times> 'g"
  next_NDiffSoft :: "'g \<Rightarrow> bool \<times> 'g"
  get_final_state :: "'g \<Rightarrow> ParticleData list"
  internal :: 'g

text \<open>
  \<^verbatim>\<open>ReactionsBitSet\<close> is the set of the positions whose bit is set.
\<close>

type_synonym ReactionsBitSet = "nat set"

text \<open>
  The member functions and parametrizations that \<^verbatim>\<open>scatteraction.cc\<close> calls and that are
  defined elsewhere (kinematics, parametrized cross sections, the particle table).  For one
  action they are fixed values and functions; the model takes them as a record.
\<close>

record Collaborators =
  sqrt_s :: double
  mandelstam_s :: double
  cm_momentum :: double
  cm_momentum_squared :: double
  gamma_cm :: double
  elastic_parametrization :: double
  high_energy_cross_section :: double
  string_hard_cross_section :: double
  parametrized_total_cross_section :: double
  \<comment> \<open>the member function \<^verbatim>\<open>total_cross_section()\<close>\<close>
  two_to_two_cross_sections :: "ReactionsBitSet \<Rightarrow> CollisionBranch list"
  detailed_balance_factor_RR ::
    "double \<Rightarrow> double \<Rightarrow> ParticleType \<Rightarrow> ParticleType \<Rightarrow> ParticleType \<Rightarrow> ParticleType \<Rightarrow> double"
  ppbar_total :: "double \<Rightarrow> double"
  ppbar_elastic :: "double \<Rightarrow> double"
  list_all_types :: "ParticleType list"
  \<comment> \<open>\<^verbatim>\<open>ParticleType::list_all()\<close>\<close>
  find_type :: "int \<Rightarrow> ParticleType"
  \<comment> \<open>\<^verbatim>\<open>ParticleType::find\<close>, by decimal PDG code\<close>
  get_partial_in_width :: "ParticleType \<Rightarrow> double \<Rightarrow> ParticleData \<Rightarrow> ParticleData \<Rightarrow> double"
  spectral_function :: "ParticleType \<Rightarrow> double \<Rightarrow> double"
  IncludedReactions_Elastic :: nat
  \<comment> \<open>the position \<^verbatim>\<open>IncludedReactions::Elastic\<close> in the bit set\<close>

record 'g ScatterAction =
  incoming_particles :: "ParticleData \<times> ParticleData"
  time_of_execution :: double
  outgoing_particles :: "ParticleData list"
  collision_channels :: "CollisionBranch list"
  total_cross_section :: double
  string_sub_cross_sections_sum :: "double list"
  string_process :: "'g StringProcess option"

section \<open>String excitation cross sections\<close>

text \<open>
  The local variables of \<^verbatim>\<open>ScatterAction::string_excitation_cross_sections\<close>, one
  definition each, as functions of \<open>sig_string_all\<close> and of the array \<open>xs\<close> that
  \<^verbatim>\<open>cross_sections_diffractive\<close> returned.
\<close>

definition single_diffr :: "double \<times> double \<times> double \<Rightarrow> double" where
  "single_diffr xs = (case xs of (single_diffr_AX, single_diffr_XB, dd) \<Rightarrow>
     d_add single_diffr_AX single_diffr_XB)"

definition nondiffractive_all :: "double \<Rightarrow> double \<times> double \<times> double \<Rightarrow> double" where
  "nondiffractive_all sig_string_all xs = (case xs of (ax, xb, dd) \<Rightarrow>
     d_max (Num 0) (d_sub sig_string_all (d_add (single_diffr xs) dd)))"

definition diffractive :: "double \<Rightarrow> double \<times> double \<times> double \<Rightarrow> double" where
  "diffractive sig_string_all xs = d_sub sig_string_all (nondiffractive_all sig_string_all xs)"

definition double_diffr :: "double \<Rightarrow> double \<times> double \<times> double \<Rightarrow> double" where
  "double_diffr sig_string_all xs =
     d_max (Num 0) (d_sub (diffractive sig_string_all xs) (single_diffr xs))"

text \<open>The factor \<^verbatim>\<open>a\<close>; its divisor is \<open>single_diffr\<close>, and no test precedes the division.\<close>

definition rescale_a :: "double \<Rightarrow> double \<times> double \<times> double \<Rightarrow> double" where
  "rescale_a sig_string_all xs =
     d_div (d_sub (diffractive sig_string_all xs) (double_diffr sig_string_all xs)) (single_diffr xs)"

definition single_diffr_AX :: "double \<Rightarrow> double \<times> double \<times> double \<Rightarrow> double" where
  "single_diffr_AX sig_string_all xs = (case xs of (ax, xb, dd) \<Rightarrow>
     d_mul ax (rescale_a sig_string_all xs))"

definition single_diffr_XB :: "double \<Rightarrow> double \<times> double \<times> double \<Rightarrow> double" where
  "single_diffr_XB sig_string_all xs = (case xs of (ax, xb, dd) \<Rightarrow>
     d_mul xb (rescale_a sig_string_all xs))"

text \<open>
  The condition of the \<^verbatim>\<open>assert\<close> that follows the rescaling.  The model of the function
  checks it, as a build with assertions does; the statements about the pieces below are made
  on the definitions of the pieces and do not depend on that.
\<close>

definition rebalance_assertion :: "double \<Rightarrow> double \<times> double \<times> double \<Rightarrow> bool" where
  "rebalance_assertion sig_string_all xs =
     d_less (d_abs (d_sub
        (d_add (d_add (d_add (single_diffr_AX sig_string_all xs) (single_diffr_XB sig_string_all xs))
                      (double_diffr sig_string_all xs))
               (nondiffractive_all sig_string_all xs))
        sig_string_all)) (Num (1 / 1000000))"

definition nondiffractive_soft :: "double \<Rightarrow> double \<times> double \<times> double \<Rightarrow> double \<Rightarrow> double" where
  "nondiffractive_soft sig_string_all xs hard_xsec =
     d_mul (nondiffractive_all sig_string_all xs)
           (d_exp (d_div (d_neg hard_xsec) (nondiffractive_all sig_string_all xs)))"

definition nondiffractive_hard :: "double \<Rightarrow> double \<times> double \<times> double \<Rightarrow> double \<Rightarrow> double" where
  "nondiffractive_hard sig_string_all xs hard_xsec =
     d_sub (nondiffractive_all sig_string_all xs) (nondiffractive_soft sig_string_all xs hard_xsec)"

text \<open>The array \<^verbatim>\<open>string_sub_cross_sections\<close> of the five pieces.\<close>

definition string_sub_cross_sections ::
  "double \<Rightarrow> double \<times> double \<times> double \<Rightarrow> double \<Rightarrow> double list" where
  "string_sub_cross_sections sig_string_all xs hard_xsec =
     [single_diffr_AX sig_string_all xs,
      single_diffr_XB sig_string_all xs,
      double_diffr sig_string_all xs,
      nondiffractive_soft sig_string_all xs hard_xsec,
      nondiffractive_hard sig_string_all xs hard_xsec]"

text \<open>
  The loop that fills \<^verbatim>\<open>string_sub_cross_sections_sum_\<close>: entry \<open>0\<close> is \<open>acc\<close>, entry
  \<open>i + 1\<close> is entry \<open>i\<close> plus piece \<open>i\<close>.
\<close>

fun cumulate :: "double \<Rightarrow> double list \<Rightarrow> double list" where
  "cumulate acc [] = [acc]"
| "cumulate acc (x # xs) = acc # cumulate (d_add acc x) xs"

text \<open>The four rebalanced pieces that the \<^verbatim>\<open>assert\<close> adds up, as one tuple.\<close>

definition rebalanced ::
  "double \<Rightarrow> double \<times> double \<times> double \<Rightarrow> double \<times> double \<times> double \<times> double" where
  "rebalanced sig xs =
     (single_diffr_AX sig xs, single_diffr_XB sig xs, double_diffr sig xs,
      nondiffractive_all sig xs)"

text \<open>
  The rebalancing in the words of the specification, for comparison: if the sum of the
  diffractive pieces exceeds the aggregate, the single-diffractive pieces are shrunk by a
  common factor until double-diffractive plus single-diffractive equals the aggregate, and
  non-diffractive is \<open>0\<close>; otherwise the remainder is non-diffractive.
\<close>

definition rebalanced_as_specified ::
  "double \<Rightarrow> double \<times> double \<times> double \<Rightarrow> double \<times> double \<times> double \<times> double" where
  "rebalanced_as_specified sig xs = (case xs of (ax, xb, dd) \<Rightarrow>
     if d_less sig (d_add (d_add ax xb) dd)
     then (let a = d_div (d_sub sig dd) (d_add ax xb) in (d_mul ax a, d_mul xb a, dd, Num 0))
     else (ax, xb, dd, d_sub sig (d_add (d_add ax xb) dd)))"

definition string_pdgid :: "ParticleData \<Rightarrow> int" where
  "string_pdgid p =
     (if deexcited_baryon_number (pdgcode (ptype p)) = 1 then 2212
      else if deexcited_baryon_number (pdgcode (ptype p)) = - 1 then - 2212
      else 211)"

definition sig_string_all :: "Collaborators \<Rightarrow> double" where
  "sig_string_all env =
     d_max (Num 0) (d_sub (high_energy_cross_section env) (elastic_parametrization env))"

definition string_excitation_cross_sections ::
  "Collaborators \<Rightarrow> ('g, 'z) ScatterAction_scheme
     \<Rightarrow> error + (CollisionBranch list \<times> ('g, 'z) ScatterAction_scheme)" where
  "string_excitation_cross_sections env act =
     (let sig_string_all = sig_string_all env;
          pdgid0 = string_pdgid (fst (incoming_particles act));
          pdgid1 = string_pdgid (snd (incoming_particles act))
      in if d_greater sig_string_all (Num 0) then
           (case string_process act of
              None \<Rightarrow> Inl StringProcessNotInitialized
            | Some sp \<Rightarrow>
               (let xs = cross_sections_diffractive sp pdgid0 pdgid1 (sqrt_s env) in
                if \<not> rebalance_assertion sig_string_all xs then Inl AssertionFailed
                else
                  (let hard_xsec = string_hard_cross_section env;
                       nd_hard = nondiffractive_hard sig_string_all xs hard_xsec;
                       sig_string_soft = d_sub sig_string_all nd_hard;
                       cumulated = cumulate (Num 0) (string_sub_cross_sections sig_string_all xs hard_xsec);
                       channel_list =
                         (if d_greater sig_string_soft (Num 0)
                          then [\<lparr>particle_types = [], weight = sig_string_soft, get_type = StringSoft\<rparr>]
                          else []) @
                         (if d_greater nd_hard (Num 0)
                          then [\<lparr>particle_types = [], weight = nd_hard, get_type = StringHard\<rparr>]
                          else [])
                   in Inr (channel_list, act\<lparr>string_sub_cross_sections_sum := cumulated\<rparr>))))
         else Inr ([], act))"

section \<open>Elastic, resonance and baryon-antibaryon cross sections\<close>

text \<open>PDG codes used by name in the source (\<^verbatim>\<open>pdg::p\<close>, \<^verbatim>\<open>pdg::n\<close>, \<^verbatim>\<open>pdg::rho_z\<close>, \<^verbatim>\<open>pdg::h1\<close>).\<close>

definition pdg_p :: int where "pdg_p = 2212"
definition pdg_n :: int where "pdg_n = 2112"
definition pdg_rho_z :: int where "pdg_rho_z = 113"
definition pdg_h1 :: int where "pdg_h1 = 10223"

text \<open>\<^verbatim>\<open>ScatterAction::cross_section()\<close> returns the running total of the branch weights.\<close>

definition cross_section :: "('g, 'z) ScatterAction_scheme \<Rightarrow> double" where
  "cross_section act = total_cross_section act"

definition elastic_cross_section ::
  "Collaborators \<Rightarrow> ('g, 'z) ScatterAction_scheme \<Rightarrow> double \<Rightarrow> CollisionBranch" where
  "elastic_cross_section env act elast_par =
     (let elastic_xs = (if d_ge elast_par (Num 0) then elast_par else elastic_parametrization env)
      in \<lparr>particle_types = [ptype (fst (incoming_particles act)), ptype (snd (incoming_particles act))],
          weight = elastic_xs, get_type = Elastic\<rparr>)"

definition NNbar_annihilation_cross_section ::
  "Collaborators \<Rightarrow> ('g, 'z) ScatterAction_scheme \<Rightarrow> CollisionBranch" where
  "NNbar_annihilation_cross_section env act =
     (let nnbar_xsec = d_max (Num 0) (d_sub (parametrized_total_cross_section env) (cross_section act))
      in \<lparr>particle_types = [find_type env pdg_h1, find_type env pdg_rho_z],
          weight = nnbar_xsec, get_type = TwoToTwo\<rparr>)"

definition NNbar_creation_cross_section ::
  "Collaborators \<Rightarrow> ('g, 'z) ScatterAction_scheme \<Rightarrow> CollisionBranch list" where
  "NNbar_creation_cross_section env act =
     (let s = mandelstam_s env;
          sqrts = sqrt_s env;
          pcm = cm_momentum env;
          type_N = find_type env pdg_p;
          type_Nbar = find_type env (- pdg_p)
      in if d_less (d_sub sqrts (d_mul (Num 2) (mass type_N))) (Num 0) then []
         else
           (let xsection =
                  d_mul (detailed_balance_factor_RR env sqrts pcm
                           (ptype (fst (incoming_particles act))) (ptype (snd (incoming_particles act)))
                           type_N type_Nbar)
                        (d_max (Num 0) (d_sub (ppbar_total env s) (ppbar_elastic env s)))
            in [\<lparr>particle_types = [type_N, type_Nbar], weight = xsection, get_type = TwoToTwo\<rparr>,
                \<lparr>particle_types = [find_type env pdg_n, find_type env (- pdg_n)],
                 weight = xsection, get_type = TwoToTwo\<rparr>]))"

definition two_to_one_formation ::
  "Collaborators \<Rightarrow> ('g, 'z) ScatterAction_scheme \<Rightarrow> ParticleType \<Rightarrow> double \<Rightarrow> double \<Rightarrow> double" where
  "two_to_one_formation env act type_resonance srts cm_momentum_sqr =
     (let type_particle_a = ptype (fst (incoming_particles act));
          type_particle_b = ptype (snd (incoming_particles act))
      in if charge type_resonance \<noteq> charge type_particle_a + charge type_particle_b then Num 0
         else if baryon_number type_resonance \<noteq>
                 baryon_number type_particle_a + baryon_number type_particle_b then Num 0
         else
           (let partial_width =
                  get_partial_in_width env type_resonance srts
                    (fst (incoming_particles act)) (snd (incoming_particles act))
            in if d_le partial_width (Num 0) then Num 0
               else
                 (let spinfactor =
                        d_div (Num (real (spin type_resonance + 1)))
                              (Num (real ((spin type_particle_a + 1) * (spin type_particle_b + 1))));
                      sym_factor =
                        (if pdgcode type_particle_a = pdgcode type_particle_b then Num 2 else Num 1)
                  in d_div
                       (d_mul (d_mul (d_mul (d_mul
                          (d_div (d_mul (d_mul (d_mul (d_mul spinfactor sym_factor) (Num 2)) M_PI) M_PI)
                                 cm_momentum_sqr)
                          (spectral_function env type_resonance srts)) partial_width) hbarc) hbarc)
                       fm2_mb)))"

text \<open>The body of the loop over \<^verbatim>\<open>ParticleType::list_all()\<close> in \<^verbatim>\<open>resonance_cross_sections\<close>.\<close>

fun resonance_loop ::
  "Collaborators \<Rightarrow> ('g, 'z) ScatterAction_scheme \<Rightarrow> double \<Rightarrow> double \<Rightarrow> ParticleType list
     \<Rightarrow> CollisionBranch list" where
  "resonance_loop env act srts p_cm_sqr [] = []"
| "resonance_loop env act srts p_cm_sqr (type_resonance # rest) =
     (let type_particle_a = ptype (fst (incoming_particles act));
          type_particle_b = ptype (snd (incoming_particles act))
      in if is_stable type_resonance then resonance_loop env act srts p_cm_sqr rest
         else if (\<not> is_stable type_particle_a \<and> pdgcode type_resonance = pdgcode type_particle_a) \<or>
                 (\<not> is_stable type_particle_b \<and> pdgcode type_resonance = pdgcode type_particle_b)
           then resonance_loop env act srts p_cm_sqr rest
         else
           (let resonance_xsection = two_to_one_formation env act type_resonance srts p_cm_sqr
            in if d_greater resonance_xsection really_small
               then \<lparr>particle_types = [type_resonance], weight = resonance_xsection,
                     get_type = TwoToOne\<rparr> # resonance_loop env act srts p_cm_sqr rest
               else resonance_loop env act srts p_cm_sqr rest))"

definition resonance_cross_sections ::
  "Collaborators \<Rightarrow> ('g, 'z) ScatterAction_scheme \<Rightarrow> CollisionBranch list" where
  "resonance_cross_sections env act =
     resonance_loop env act (sqrt_s env) (cm_momentum_squared env) (list_all_types env)"

section \<open>Building the list of branches\<close>

text \<open>
  Modelled from the spec: the templates \<^verbatim>\<open>add_process\<close> and \<^verbatim>\<open>add_processes\<close> of the base
  class \<^verbatim>\<open>Action\<close>, which \<^verbatim>\<open>add_collision\<close> and \<^verbatim>\<open>add_collisions\<close> call, are not in
  the source files.  The spec describes the branch list as an append-only ordered sequence paired
  with the running total of the weights: a branch is appended and its weight is added to
  \<^verbatim>\<open>total_cross_section_\<close>.
\<close>

definition add_collision ::
  "('g, 'z) ScatterAction_scheme \<Rightarrow> CollisionBranch \<Rightarrow> ('g, 'z) ScatterAction_scheme" where
  "add_collision act p =
     act\<lparr>collision_channels := collision_channels act @ [p],
         total_cross_section := d_add (total_cross_section act) (weight p)\<rparr>"

fun add_collisions ::
  "('g, 'z) ScatterAction_scheme \<Rightarrow> CollisionBranch list \<Rightarrow> ('g, 'z) ScatterAction_scheme" where
  "add_collisions act [] = act"
| "add_collisions act (p # pv) = add_collisions (add_collision act p) pv"

text \<open>
  The random source: the stream of the numbers that the next calls of
  \<^verbatim>\<open>Random::uniform(0., 1.)\<close> return.  A call takes the head.
\<close>

type_synonym Random = "double stream"

definition uniform :: "Random \<Rightarrow> double \<times> Random" where
  "uniform rng = (shd rng, stl rng)"

datatype NNbarTreatment = NoAnnihilation | Resonances

text \<open>
  \<^verbatim>\<open>ScatterAction::add_all_processes\<close>, in the four stages of its body.  The first one
  computes the local variable \<^verbatim>\<open>is_pythia\<close>; \<^verbatim>\<open>mix_scatter_type_energy\<close> and
  \<^verbatim>\<open>mix_scatter_type_window_width\<close> are assigned exactly where \<^verbatim>\<open>include_pythia\<close> is set.
\<close>

definition both_are_nucleons :: "('g, 'z) ScatterAction_scheme \<Rightarrow> bool" where
  "both_are_nucleons act =
     (is_nucleon (ptype (fst (incoming_particles act))) \<and>
      is_nucleon (ptype (snd (incoming_particles act))))"

definition mix_scatter_type :: "('g, 'z) ScatterAction_scheme \<Rightarrow> (double \<times> double) option" where
  "mix_scatter_type act =
     (let t1 = ptype (fst (incoming_particles act));
          t2 = ptype (snd (incoming_particles act))
      in if both_are_nucleons act then Some (Num 4.5, Num 0.5)
         else if (is_pion (pdgcode t1) \<and> is_nucleon t2) \<or> (is_nucleon t1 \<and> is_pion (pdgcode t2))
           then Some (Num 2.05, Num 0.15)
         else None)"

definition probability_pythia :: "double \<Rightarrow> double \<Rightarrow> double \<Rightarrow> double" where
  "probability_pythia srts mix_scatter_type_energy mix_scatter_type_window_width =
     d_add (Num 0.5)
       (d_mul (Num 0.5)
          (d_sin (d_div (d_mul (d_mul (Num 0.5) M_PI) (d_sub srts mix_scatter_type_energy))
                        mix_scatter_type_window_width)))"

definition is_pythia ::
  "Collaborators \<Rightarrow> ('g, 'z) ScatterAction_scheme \<Rightarrow> bool \<Rightarrow> Random \<Rightarrow> bool \<times> Random" where
  "is_pythia env act strings_switch rng =
     (case mix_scatter_type act of
        None \<Rightarrow> (False, rng)
      | Some (mix_scatter_type_energy, mix_scatter_type_window_width) \<Rightarrow>
          if strings_switch then
            (if d_greater (sqrt_s env) (d_add mix_scatter_type_energy mix_scatter_type_window_width)
             then (True, rng)
             else if d_greater (sqrt_s env)
                       (d_sub mix_scatter_type_energy mix_scatter_type_window_width)
             then (case uniform rng of (u, rng') \<Rightarrow>
                     (d_greater
                        (probability_pythia (sqrt_s env) mix_scatter_type_energy
                           mix_scatter_type_window_width) u, rng'))
             else (False, rng))
          else (False, rng))"

definition reject_by_nucleon_elastic_cutoff ::
  "Collaborators \<Rightarrow> ('g, 'z) ScatterAction_scheme \<Rightarrow> double \<Rightarrow> bool" where
  "reject_by_nucleon_elastic_cutoff env act low_snn_cut =
     (both_are_nucleons act \<and>
      antiparticle_sign (ptype (fst (incoming_particles act))) =
        antiparticle_sign (ptype (snd (incoming_particles act))) \<and>
      d_less (sqrt_s env) low_snn_cut)"

definition add_elastic ::
  "Collaborators \<Rightarrow> ('g, 'z) ScatterAction_scheme \<Rightarrow> double \<Rightarrow> ReactionsBitSet \<Rightarrow> double
     \<Rightarrow> ('g, 'z) ScatterAction_scheme" where
  "add_elastic env act elastic_parameter included_2to2 low_snn_cut =
     (let incl_elastic = (IncludedReactions_Elastic env \<in> included_2to2)
      in if incl_elastic \<and> \<not> reject_by_nucleon_elastic_cutoff env act low_snn_cut
         then add_collision act (elastic_cross_section env act elastic_parameter)
         else act)"

definition add_resonances_and_two_to_two ::
  "Collaborators \<Rightarrow> ('g, 'z) ScatterAction_scheme \<Rightarrow> bool \<Rightarrow> ReactionsBitSet
     \<Rightarrow> ('g, 'z) ScatterAction_scheme" where
  "add_resonances_and_two_to_two env act two_to_one included_2to2 =
     (let act1 = (if two_to_one then add_collisions act (resonance_cross_sections env act) else act)
      in if included_2to2 \<noteq> {}
         then add_collisions act1 (two_to_two_cross_sections env included_2to2)
         else act1)"

definition add_nnbar ::
  "Collaborators \<Rightarrow> ('g, 'z) ScatterAction_scheme \<Rightarrow> NNbarTreatment
     \<Rightarrow> ('g, 'z) ScatterAction_scheme" where
  "add_nnbar env act nnbar_treatment =
     (let t1 = ptype (fst (incoming_particles act));
          t2 = ptype (snd (incoming_particles act))
      in if nnbar_treatment = Resonances then
           (let act1 = (if is_nucleon t1 \<and> pdgcode t2 = antiparticle_pdgcode t1
                        then add_collision act (NNbar_annihilation_cross_section env act)
                        else act)
            in if (decimal (pdgcode t1) = pdg_rho_z \<and> decimal (pdgcode t2) = pdg_h1) \<or>
                  (decimal (pdgcode t1) = pdg_h1 \<and> decimal (pdgcode t2) = pdg_rho_z)
               then add_collisions act1 (NNbar_creation_cross_section env act1)
               else act1)
         else act)"

definition add_all_processes ::
  "Collaborators \<Rightarrow> ('g, 'z) ScatterAction_scheme \<Rightarrow> Random \<Rightarrow> double \<Rightarrow> bool \<Rightarrow> ReactionsBitSet
     \<Rightarrow> double \<Rightarrow> bool \<Rightarrow> NNbarTreatment \<Rightarrow> error + (('g, 'z) ScatterAction_scheme \<times> Random)" where
  "add_all_processes env act rng elastic_parameter two_to_one included_2to2 low_snn_cut
       strings_switch nnbar_treatment =
     (case is_pythia env act strings_switch rng of (pythia, rng') \<Rightarrow>
        (let act1 = add_elastic env act elastic_parameter included_2to2 low_snn_cut
         in if pythia then
              (case string_excitation_cross_sections env act1 of
                 Inl e \<Rightarrow> Inl e
               | Inr (channel_list, act2) \<Rightarrow>
                   Inr (add_nnbar env (add_collisions act2 channel_list) nnbar_treatment, rng'))
            else
              Inr (add_nnbar env (add_resonances_and_two_to_two env act1 two_to_one included_2to2)
                     nnbar_treatment, rng')))"

subsection \<open>What a run adds, in terms of the cross-section functions\<close>

text \<open>
  Notation for the statements about \<^verbatim>\<open>add_all_processes\<close>: the elastic branch under its
  condition; the resonance and 2-to-2 branches; the running total after a list of branches; the
  baryon-antibaryon branches, whose annihilation weight is computed from the running total
  after the branches added before; and a run that returns with a given list appended to the
  branch list, the running total advanced by the weights of that list, and a given
  \<^verbatim>\<open>string_sub_cross_sections_sum_\<close>.
\<close>

abbreviation elastic_branches ::
  "Collaborators \<Rightarrow> ('g, 'z) ScatterAction_scheme \<Rightarrow> double \<Rightarrow> ReactionsBitSet \<Rightarrow> double
     \<Rightarrow> CollisionBranch list" where
  "elastic_branches env act elastic_parameter included_2to2 low_snn_cut \<equiv>
     (if IncludedReactions_Elastic env \<in> included_2to2 \<and>
         \<not> (both_are_nucleons act \<and>
            antiparticle_sign (ptype (fst (incoming_particles act))) =
              antiparticle_sign (ptype (snd (incoming_particles act))) \<and>
            d_less (sqrt_s env) low_snn_cut)
      then [elastic_cross_section env act elastic_parameter] else [])"

abbreviation resonance_branches ::
  "Collaborators \<Rightarrow> ('g, 'z) ScatterAction_scheme \<Rightarrow> bool \<Rightarrow> ReactionsBitSet
     \<Rightarrow> CollisionBranch list" where
  "resonance_branches env act two_to_one included_2to2 \<equiv>
     (if two_to_one then resonance_cross_sections env act else []) @
     (if included_2to2 \<noteq> {} then two_to_two_cross_sections env included_2to2 else [])"

abbreviation total_after :: "('g, 'z) ScatterAction_scheme \<Rightarrow> CollisionBranch list \<Rightarrow> double" where
  "total_after act channels \<equiv> foldl d_add (total_cross_section act) (map weight channels)"

abbreviation nnbar_branches ::
  "Collaborators \<Rightarrow> ('g, 'z) ScatterAction_scheme \<Rightarrow> NNbarTreatment \<Rightarrow> CollisionBranch list
     \<Rightarrow> CollisionBranch list" where
  "nnbar_branches env act nnbar_treatment channels \<equiv>
     (if nnbar_treatment = Resonances then
        (if is_nucleon (ptype (fst (incoming_particles act))) \<and>
            pdgcode (ptype (snd (incoming_particles act))) =
              antiparticle_pdgcode (ptype (fst (incoming_particles act)))
         then [NNbar_annihilation_cross_section env
                 (act\<lparr>total_cross_section := total_after act channels\<rparr>)]
         else []) @
        (if (decimal (pdgcode (ptype (fst (incoming_particles act)))) = pdg_rho_z \<and>
             decimal (pdgcode (ptype (snd (incoming_particles act)))) = pdg_h1) \<or>
            (decimal (pdgcode (ptype (fst (incoming_particles act)))) = pdg_h1 \<and>
             decimal (pdgcode (ptype (snd (incoming_particles act)))) = pdg_rho_z)
         then NNbar_creation_cross_section env act else [])
      else [])"

abbreviation returns_with ::
  "('g, 'z) ScatterAction_scheme \<Rightarrow> CollisionBranch list \<Rightarrow> double list
     \<Rightarrow> error + (('g, 'z) ScatterAction_scheme \<times> Random) \<Rightarrow> Random \<Rightarrow> bool" where
  "returns_with act channels sub_sum result rng' \<equiv>
     (\<exists>act'. result = Inr (act', rng') \<and>
        collision_channels act' = collision_channels act @ channels \<and>
        total_cross_section act' = total_after act channels \<and>
        string_sub_cross_sections_sum act' = sub_sum \<and>
        incoming_particles act' = incoming_particles act)"

section \<open>Final states of string excitations\<close>

text \<open>
  The block that ends both \<^verbatim>\<open>string_excitation_pythia\<close> and \<^verbatim>\<open>string_excitation_soft\<close>:
  the adjustment of the outgoing particles when an incoming particle was not yet formed.
\<close>

definition tform_in :: "('g, 'z) ScatterAction_scheme \<Rightarrow> double" where
  "tform_in act =
     d_max (formation_time (fst (incoming_particles act)))
           (formation_time (snd (incoming_particles act)))"

definition fin :: "('g, 'z) ScatterAction_scheme \<Rightarrow> double" where
  "fin act =
     (if d_greater (formation_time (fst (incoming_particles act)))
                   (formation_time (snd (incoming_particles act)))
      then cross_section_scaling_factor (fst (incoming_particles act))
      else cross_section_scaling_factor (snd (incoming_particles act)))"

definition adjust_outgoing :: "double \<Rightarrow> double \<Rightarrow> ParticleData \<Rightarrow> ParticleData" where
  "adjust_outgoing t_in f_in p =
     (let tform_out = formation_time p;
          fout = cross_section_scaling_factor p;
          p1 = p\<lparr>cross_section_scaling_factor := d_mul f_in fout\<rparr>
      in if d_greater t_in tform_out then p1\<lparr>formation_time := t_in\<rparr> else p1)"

definition adjust_unformed :: "('g, 'z) ScatterAction_scheme \<Rightarrow> ('g, 'z) ScatterAction_scheme" where
  "adjust_unformed act =
     (if d_greater (tform_in act) (time_of_execution act)
      then act\<lparr>outgoing_particles :=
                 map (adjust_outgoing (tform_in act) (fin act)) (outgoing_particles act)\<rparr>
      else act)"

text \<open>
  \<^verbatim>\<open>string_excitation_pythia\<close> from the point where the event generator has succeeded:
  \<open>hadrons\<close> is the list of the particles that the loop over the sorted final-state hadrons
  pushes back, each with the scaling factor and formation time that the loop has set.
\<close>

definition string_excitation_pythia ::
  "('g, 'z) ScatterAction_scheme \<Rightarrow> ParticleData list \<Rightarrow> ('g, 'z) ScatterAction_scheme" where
  "string_excitation_pythia act hadrons =
     adjust_unformed (act\<lparr>outgoing_particles := outgoing_particles act @ hadrons\<rparr>)"

definition ntry_max :: nat where
  "ntry_max = 10000"

text \<open>The \<^verbatim>\<open>switch (iproc)\<close> of the retry loop: one sampling call of the collaborator.\<close>

definition sample_subprocess :: "'g StringProcess \<Rightarrow> nat \<Rightarrow> 'g \<Rightarrow> bool \<times> 'g" where
  "sample_subprocess sp iproc g =
     (if iproc = 0 then next_SDiff sp True g
      else if iproc = 1 then next_SDiff sp False g
      else if iproc = 2 then next_DDiff sp g
      else if iproc = 3 then next_NDiffSoft sp g
      else (False, g))"

text \<open>The loop \<^verbatim>\<open>while (!success && ntry < ntry_max)\<close>; it returns the final values of
  \<^verbatim>\<open>success\<close> and \<^verbatim>\<open>ntry\<close> and the state of the collaborator.\<close>

function retry_loop :: "'g StringProcess \<Rightarrow> nat \<Rightarrow> bool \<Rightarrow> nat \<Rightarrow> 'g \<Rightarrow> bool \<times> nat \<times> 'g" where
  "retry_loop sp iproc success ntry g =
     (if \<not> success \<and> ntry < ntry_max
      then (case sample_subprocess sp iproc g of
              (success', g') \<Rightarrow> retry_loop sp iproc success' (ntry + 1) g')
      else (success, ntry, g))"
  by pat_completeness auto
termination
  by (relation "measure (\<lambda>(sp, iproc, success, ntry, g). ntry_max - ntry)") auto

declare retry_loop.simps [simp del]

text \<open>The subprocess selection: the first \<open>i\<close> of \<open>0, 1, 2, 3\<close> whose interval holds
  \<open>r_xsec\<close>, if there is one.\<close>

definition select_iproc :: "double list \<Rightarrow> double \<Rightarrow> nat option" where
  "select_iproc sub_sum r_xsec =
     List.find (\<lambda>i. d_ge r_xsec (sub_sum ! i) \<and> d_less r_xsec (sub_sum ! (i + 1))) [0, 1, 2, 3]"

definition string_excitation_soft ::
  "Collaborators \<Rightarrow> ('g, 'z) ScatterAction_scheme \<Rightarrow> Random
     \<Rightarrow> error + (('g, 'z) ScatterAction_scheme \<times> Random)" where
  "string_excitation_soft env act rng =
     (case string_process act of
        None \<Rightarrow> Inl NullStringProcess
      | Some sp \<Rightarrow>
         (let g0 = init sp (incoming_particles act) (time_of_execution act) (gamma_cm env) (internal sp)
          in case uniform rng of (u, rng') \<Rightarrow>
            (let r_xsec = d_mul (string_sub_cross_sections_sum act ! 4) u
             in case select_iproc (string_sub_cross_sections_sum act) r_xsec of
                  None \<Rightarrow> Inl SubprocessNotSpecified
                | Some iproc \<Rightarrow>
                   (case retry_loop sp iproc False 0 g0 of (success, ntry, g) \<Rightarrow>
                      if ntry = ntry_max then Inl TooManyTries
                      else Inr (adjust_unformed
                                  (act\<lparr>outgoing_particles := get_final_state sp g,
                                       string_process := Some (sp\<lparr>internal := g\<rparr>)\<rparr>),
                                rng')))))"

section \<open>The photon action (\<^verbatim>\<open>scatteractionphoton.h\<close>)\<close>

text \<open>
  \<^verbatim>\<open>ScatterActionPhoton\<close> extends \<^verbatim>\<open>ScatterAction\<close>.  Its header computes with
  \<^verbatim>\<open>float\<close>; the values are modelled as above.
\<close>

record 'g ScatterActionPhoton = "'g ScatterAction" +
  number_of_fractional_photons :: int
  weight_photon :: double
  collision_channels_photons :: "CollisionBranch list"
  cross_section_photons :: double

definition ScatterActionPhoton_cross_section :: "'g ScatterActionPhoton \<Rightarrow> double" where
  "ScatterActionPhoton_cross_section act =
     (if d_less (cross_section_photons act) really_small
      then cross_section_photons act
      else d_add (total_cross_section act) (cross_section_photons act))"

section \<open>Concrete inputs\<close>

text \<open>
  A small particle table, one set of collaborators and one action, used to run the
  definitions on concrete inputs.
\<close>

definition make_type ::
  "int \<Rightarrow> bool \<Rightarrow> real \<Rightarrow> int \<Rightarrow> int \<Rightarrow> nat \<Rightarrow> bool \<Rightarrow> bool \<Rightarrow> ParticleType" where
  "make_type code pion m q b s stab nucleon =
     \<lparr>pdgcode = \<lparr>decimal = code, is_pion = pion, deexcited_baryon_number = b\<rparr>,
      mass = Num m, charge = q, baryon_number = b, spin = s, is_stable = stab,
      is_nucleon = nucleon, antiparticle_sign = (if code < 0 then - 1 else 1),
      antiparticle_pdgcode = \<lparr>decimal = - code, is_pion = pion, deexcited_baryon_number = - b\<rparr>\<rparr>"

definition proton :: ParticleType where
  "proton = make_type 2212 False 0.938 1 1 1 True True"

definition antiproton :: ParticleType where
  "antiproton = make_type (- 2212) False 0.938 (- 1) (- 1) 1 True True"

definition neutron :: ParticleType where
  "neutron = make_type 2112 False 0.938 0 1 1 True True"

definition antineutron :: ParticleType where
  "antineutron = make_type (- 2112) False 0.938 0 (- 1) 1 True True"

definition pi_plus :: ParticleType where
  "pi_plus = make_type 211 True 0.138 1 0 0 True False"

definition Delta_pp :: ParticleType where
  "Delta_pp = make_type 2224 False 1.232 2 1 3 False False"

definition rho_zero :: ParticleType where
  "rho_zero = make_type 113 False 0.776 0 0 2 False False"

definition particle_table :: "int \<Rightarrow> ParticleType" where
  "particle_table code =
     (if code = 2212 then proton
      else if code = - 2212 then antiproton
      else if code = 2112 then neutron
      else if code = - 2112 then antineutron
      else if code = 211 then pi_plus
      else if code = 2224 then Delta_pp
      else rho_zero)"

definition formed :: "ParticleType \<Rightarrow> ParticleData" where
  "formed t = \<lparr>ptype = t, formation_time = Num 0, cross_section_scaling_factor = Num 1\<rparr>"

definition unformed :: "ParticleType \<Rightarrow> real \<Rightarrow> real \<Rightarrow> ParticleData" where
  "unformed t tf f = \<lparr>ptype = t, formation_time = Num tf, cross_section_scaling_factor = Num f\<rparr>"

definition example_env :: "real \<Rightarrow> Collaborators" where
  "example_env srts =
     \<lparr>sqrt_s = Num srts, mandelstam_s = Num (srts * srts), cm_momentum = Num 1,
      cm_momentum_squared = Num 1, gamma_cm = Num 2,
      elastic_parametrization = Num 7, high_energy_cross_section = Num 8,
      string_hard_cross_section = Num 1, parametrized_total_cross_section = Num 40,
      two_to_two_cross_sections =
        (\<lambda>included. if 2 \<in> included
           then [\<lparr>particle_types = [neutron, Delta_pp], weight = Num 3, get_type = TwoToTwo\<rparr>]
           else []),
      detailed_balance_factor_RR = (\<lambda>srts pcm a b c d. Num 2),
      ppbar_total = (\<lambda>s. Num 50), ppbar_elastic = (\<lambda>s. Num 10),
      list_all_types = [proton, pi_plus, Delta_pp],
      find_type = particle_table,
      get_partial_in_width = (\<lambda>t srts a b. Num 1),
      spectral_function = (\<lambda>t srts. Num 1),
      IncludedReactions_Elastic = 0\<rparr>"

text \<open>
  A collaborator that returns the diffractive cross sections \<open>xs\<close> and whose sampling calls
  are rejected until call number \<open>k\<close>, which succeeds; its state counts the calls.
\<close>

definition example_string_process :: "double \<times> double \<times> double \<Rightarrow> nat \<Rightarrow> nat StringProcess" where
  "example_string_process xs k =
     \<lparr>cross_sections_diffractive = (\<lambda>pdga pdgb srts. xs),
      init = (\<lambda>incoming t gamma g. 0),
      next_SDiff = (\<lambda>is_AX g. (Suc g = k, Suc g)),
      next_DDiff = (\<lambda>g. (Suc g = k, Suc g)),
      next_NDiffSoft = (\<lambda>g. (Suc g = k, Suc g)),
      get_final_state = (\<lambda>g. [unformed pi_plus 2 (1 / 2), unformed proton 5 (1 / 4)]),
      internal = 0\<rparr>"

definition example_action ::
  "ParticleData \<Rightarrow> ParticleData \<Rightarrow> nat StringProcess option \<Rightarrow> nat ScatterAction" where
  "example_action a b sp =
     \<lparr>incoming_particles = (a, b), time_of_execution = Num 1, outgoing_particles = [],
      collision_channels = [], total_cross_section = Num 0,
      string_sub_cross_sections_sum = [Num 0, Num 1, Num 2, Num 3, Num 4, Num 5],
      string_process = sp\<rparr>"


definition example_photon_action :: "real \<Rightarrow> real \<Rightarrow> nat ScatterActionPhoton" where
  "example_photon_action tot photons =
     \<lparr>incoming_particles = (formed pi_plus, formed pi_plus), time_of_execution = Num 1,
      outgoing_particles = [], collision_channels = [], total_cross_section = Num tot,
      string_sub_cross_sections_sum = [Num 0, Num 0, Num 0, Num 0, Num 0, Num 0],
      string_process = None,
      number_of_fractional_photons = 1, weight_photon = Num 0,
      collision_channels_photons = [], cross_section_photons = Num photons\<rparr>"

text \<open>
  Collaborators for a positive pion and a proton under which the weight of the doubly charged
  Delta is \<open>9.99999999e-7\<close>, between the value of \<^verbatim>\<open>really_small\<close> and \<open>1/1000000\<close>.
\<close>

definition near_floor_env :: Collaborators where
  "near_floor_env =
     (example_env 2)\<lparr>cm_momentum_squared := Num (pi * pi),
                      get_partial_in_width :=
                        (\<lambda>t srts a b. Num (99999999900 / 155751863382659236))\<rparr>"

section \<open>Properties of the string cross sections\<close>

subsection \<open>The local variables on finite inputs\<close>

lemma single_diffr_Num: "single_diffr (Num ax, Num xb, Num dd) = Num (ax + xb)"
  by (simp add: single_diffr_def)

lemma nondiffractive_all_Num:
  "nondiffractive_all (Num A) (Num ax, Num xb, Num dd) = Num (max 0 (A - (ax + xb + dd)))"
  by (simp add: nondiffractive_all_def single_diffr_def d_sub_def d_max_def max_def)

lemma diffractive_Num:
  "diffractive (Num A) (Num ax, Num xb, Num dd) = Num (min A (ax + xb + dd))"
  by (simp add: diffractive_def nondiffractive_all_Num d_sub_def max_def min_def)

lemma double_diffr_Num:
  "double_diffr (Num A) (Num ax, Num xb, Num dd) =
     Num (max 0 (min A (ax + xb + dd) - (ax + xb)))"
  by (auto simp: double_diffr_def diffractive_Num single_diffr_Num d_sub_def d_max_def max_def)

lemma rescale_a_Num:
  assumes "ax + xb \<noteq> 0"
  shows "rescale_a (Num A) (Num ax, Num xb, Num dd) =
     Num ((min A (ax + xb + dd) - max 0 (min A (ax + xb + dd) - (ax + xb))) / (ax + xb))"
  using assms
  by (simp add: rescale_a_def diffractive_Num double_diffr_Num single_diffr_Num d_sub_def)

lemma rescale_a_zero_divisor:
  assumes "0 < A" "0 \<le> dd"
  shows "rescale_a (Num A) (Num 0, Num 0, Num dd) = NaN"
  using assms
  by (simp add: rescale_a_def diffractive_Num double_diffr_Num single_diffr_Num d_sub_def max_def min_def)

lemma sig_string_all_example: "sig_string_all (example_env s) = Num 1"
  by (simp add: sig_string_all_def example_env_def d_sub_def d_max_def)

lemma rebalanced_sum:
  assumes "0 < A" "0 \<le> ax" "0 \<le> xb" "0 \<le> dd" "0 < ax + xb"
  shows "d_add (d_add (d_add (single_diffr_AX (Num A) (Num ax, Num xb, Num dd))
            (single_diffr_XB (Num A) (Num ax, Num xb, Num dd)))
            (double_diffr (Num A) (Num ax, Num xb, Num dd)))
            (nondiffractive_all (Num A) (Num ax, Num xb, Num dd)) = Num A"
proof -
  define m where "m = min A (ax + xb + dd)"
  define q where "q = max 0 (m - (ax + xb))"
  have s: "ax + xb \<noteq> 0" using assms by simp
  have "ax * ((m - q) / (ax + xb)) + xb * ((m - q) / (ax + xb)) = (ax + xb) * ((m - q) / (ax + xb))"
    by (rule distrib_right [symmetric])
  also have "\<dots> = m - q" using s by simp
  finally have e: "ax * ((m - q) / (ax + xb)) + xb * ((m - q) / (ax + xb)) + q = m" by simp
  have n: "m + max 0 (A - (ax + xb + dd)) = A" by (simp add: m_def max_def min_def)
  show ?thesis
    using s e n
    by (simp add: single_diffr_AX_def single_diffr_XB_def rescale_a_Num double_diffr_Num
        nondiffractive_all_Num m_def [symmetric] q_def [symmetric])
qed

lemma soft_plus_hard:
  assumes "0 < h"
  shows "d_add (nondiffractive_soft (Num A) (Num ax, Num xb, Num dd) (Num h))
     (nondiffractive_hard (Num A) (Num ax, Num xb, Num dd) (Num h)) = nondiffractive_all (Num A) (Num ax, Num xb, Num dd)"
  using assms
  by (simp add: nondiffractive_soft_def nondiffractive_hard_def nondiffractive_all_Num d_sub_def)

lemma rescale_a_excess:
  assumes "0 < ax + xb" "0 \<le> dd" "A < ax + xb + dd"
  shows "rescale_a (Num A) (Num ax, Num xb, Num dd) = Num (min A (ax + xb) / (ax + xb))"
proof -
  have "min A (ax + xb + dd) - max 0 (min A (ax + xb + dd) - (ax + xb)) = min A (ax + xb)"
    using assms by (simp add: min_def max_def)
  then show ?thesis using assms by (simp add: rescale_a_Num)
qed

lemma rescale_a_no_excess:
  assumes "0 < ax + xb" "0 \<le> dd" "ax + xb + dd \<le> A"
  shows "rescale_a (Num A) (Num ax, Num xb, Num dd) = Num 1"
proof -
  have "min A (ax + xb + dd) - max 0 (min A (ax + xb + dd) - (ax + xb)) = ax + xb"
    using assms by (simp add: min_def max_def)
  then show ?thesis using assms by (simp add: rescale_a_Num)
qed


text \<open>Where \<open>AX + XB > 0\<close> and the hard cross section is positive, the five pieces sum to the
  aggregate.\<close>

lemma nondiffractive_soft_Num:
  assumes "0 < h"
  shows "\<exists>x. nondiffractive_soft (Num A) (Num ax, Num xb, Num dd) (Num h) = Num x \<and>
             nondiffractive_hard (Num A) (Num ax, Num xb, Num dd) (Num h) =
               Num (max 0 (A - (ax + xb + dd)) - x)"
  using assms
  by (simp add: nondiffractive_soft_def nondiffractive_hard_def nondiffractive_all_Num d_sub_def)

lemma five_pieces_sum:
  assumes "0 < A" "0 \<le> ax" "0 \<le> xb" "0 \<le> dd" "0 < ax + xb" "0 < h"
  shows "last (cumulate (Num 0) (string_sub_cross_sections (Num A) (Num ax, Num xb, Num dd) (Num h)))
           = Num A"
proof -
  let ?xs = "(Num ax, Num xb, Num dd)"
  obtain x where s: "nondiffractive_soft (Num A) ?xs (Num h) = Num x"
    and hd: "nondiffractive_hard (Num A) ?xs (Num h) = Num (max 0 (A - (ax + xb + dd)) - x)"
    using nondiffractive_soft_Num [OF assms(6)] by blast
  have ne: "ax + xb \<noteq> 0" using assms(5) by simp
  obtain a where a: "rescale_a (Num A) ?xs = Num a"
    using rescale_a_Num [OF ne] by blast
  have four: "ax * a + xb * a + max 0 (min A (ax + xb + dd) - (ax + xb)) +
      max 0 (A - (ax + xb + dd)) = A"
    using rebalanced_sum [OF assms(1-5)]
    by (simp add: single_diffr_AX_def single_diffr_XB_def a double_diffr_Num nondiffractive_all_Num)
  show ?thesis
    using four
    by (simp add: string_sub_cross_sections_def single_diffr_AX_def single_diffr_XB_def a
        double_diffr_Num s hd)
qed

subsection \<open>The partition at a vanishing single-diffractive cross section\<close>

text \<open>
  C1 (the five rebalanced pieces sum to the aggregate within \<open>1e-6\<close>, for every aggregate
  \<open>A > 0\<close> and every non-negative diffractive triple).  The source asserts this, and
  \<open>five_pieces_sum\<close> shows it where \<open>AX + XB > 0\<close>.  At the
  aggregate \<open>1\<close> and the triple \<open>(0, 0, 1/2)\<close> the code computes the factor \<open>a = 0 / 0\<close>:
  both single-diffractive pieces are not numbers, so is the sum of the five pieces, the
  condition of the \<^verbatim>\<open>assert\<close> is false, and the function ends in the failed assertion.
\<close>

theorem string_partition_fails_without_single_diffractive:
  "string_sub_cross_sections (Num 1) (Num 0, Num 0, Num (1 / 2)) (Num 1) =
     [NaN, NaN, Num (1 / 2), Num (1 / 2 * exp (- 2)), Num (1 / 2 - 1 / 2 * exp (- 2))] \<and>
   last (cumulate (Num 0)
           (string_sub_cross_sections (Num 1) (Num 0, Num 0, Num (1 / 2)) (Num 1))) = NaN \<and>
   \<not> rebalance_assertion (Num 1) (Num 0, Num 0, Num (1 / 2)) \<and>
   string_excitation_cross_sections (example_env 6)
     (example_action (formed proton) (formed proton)
        (Some (example_string_process (Num 0, Num 0, Num (1 / 2)) 1))) = Inl AssertionFailed"
proof -
  have pieces: "string_sub_cross_sections (Num 1) (Num 0, Num 0, Num (1 / 2)) (Num 1) =
     [NaN, NaN, Num (1 / 2), Num (1 / 2 * exp (- 2)), Num (1 / 2 - 1 / 2 * exp (- 2))]"
    by (simp add: string_sub_cross_sections_def single_diffr_AX_def single_diffr_XB_def
        rescale_a_zero_divisor double_diffr_Num nondiffractive_soft_def nondiffractive_hard_def
        nondiffractive_all_Num d_sub_def)
  have total: "last (cumulate (Num 0)
           (string_sub_cross_sections (Num 1) (Num 0, Num 0, Num (1 / 2)) (Num 1))) = NaN"
    by (simp add: pieces)
  have asserted: "\<not> rebalance_assertion (Num 1) (Num 0, Num 0, Num (1 / 2))"
    by (simp add: rebalance_assertion_def single_diffr_AX_def single_diffr_XB_def
        rescale_a_zero_divisor d_sub_def)
  have "string_excitation_cross_sections (example_env 6)
     (example_action (formed proton) (formed proton)
        (Some (example_string_process (Num 0, Num 0, Num (1 / 2)) 1))) = Inl AssertionFailed"
    by (simp add: string_excitation_cross_sections_def sig_string_all_example d_greater_def
        asserted example_action_def example_string_process_def)
  with pieces total asserted show ?thesis by simp
qed

subsection \<open>The order of the rebalancing\<close>

text \<open>
  C3, against the claim as it is worded.  At the aggregate \<open>1\<close> and the triple
  \<open>(0.3, 0.3, 0.6)\<close> the diffractive sum exceeds the aggregate.  The claim has the
  single-diffractive pieces shrunk to \<open>0.2\<close> each beside the double-diffractive \<open>0.6\<close>;
  the code leaves them at \<open>0.3\<close> and reduces the double-diffractive piece to \<open>0.4\<close>.
\<close>

theorem rebalancing_counterexample:
  "d_less (Num 1) (d_add (d_add (Num (3 / 10)) (Num (3 / 10))) (Num (6 / 10))) \<and>
   rebalanced (Num 1) (Num (3 / 10), Num (3 / 10), Num (6 / 10)) =
     (Num (3 / 10), Num (3 / 10), Num (4 / 10), Num 0) \<and>
   rebalanced_as_specified (Num 1) (Num (3 / 10), Num (3 / 10), Num (6 / 10)) =
     (Num (2 / 10), Num (2 / 10), Num (6 / 10), Num 0) \<and>
   rebalanced (Num 1) (Num (3 / 10), Num (3 / 10), Num (6 / 10)) \<noteq>
     rebalanced_as_specified (Num 1) (Num (3 / 10), Num (3 / 10), Num (6 / 10))"
  by (simp add: rebalanced_def rebalanced_as_specified_def single_diffr_AX_def single_diffr_XB_def
      rescale_a_Num double_diffr_Num nondiffractive_all_Num d_sub_def)

text \<open>
  C3, amended.  For an aggregate \<open>A > 0\<close> and non-negative \<open>AX\<close>, \<open>XB\<close>, \<open>DD\<close> with
  \<open>AX + XB > 0\<close>: when \<open>AX + XB + DD\<close> exceeds \<open>A\<close>, the non-diffractive piece is \<open>0\<close>,
  the double-diffractive piece is reduced first, to \<open>max 0 (A - (AX + XB))\<close>, and the
  single-diffractive pieces are multiplied by the common factor \<open>min A (AX + XB) / (AX + XB)\<close>,
  which is below \<open>1\<close> only when \<open>AX + XB\<close> alone exceeds \<open>A\<close>; double-diffractive plus
  single-diffractive is then \<open>A\<close>.  Otherwise the three diffractive pieces are unchanged and
  the non-diffractive piece is the remainder \<open>A - (AX + XB + DD)\<close>.
\<close>

theorem rebalancing_drains_double_then_single:
  assumes "0 < A" "0 \<le> ax" "0 \<le> xb" "0 \<le> dd" "0 < ax + xb"
  shows "(A < ax + xb + dd \<longrightarrow>
           rebalanced (Num A) (Num ax, Num xb, Num dd) =
             (Num (ax * (min A (ax + xb) / (ax + xb))), Num (xb * (min A (ax + xb) / (ax + xb))),
              Num (max 0 (A - (ax + xb))), Num 0) \<and>
           min A (ax + xb) / (ax + xb) \<le> 1 \<and>
           ax * (min A (ax + xb) / (ax + xb)) + xb * (min A (ax + xb) / (ax + xb))
             + max 0 (A - (ax + xb)) = A) \<and>
         (ax + xb + dd \<le> A \<longrightarrow>
           rebalanced (Num A) (Num ax, Num xb, Num dd) =
             (Num ax, Num xb, Num dd, Num (A - (ax + xb + dd))))"
proof (intro conjI impI)
  assume ex: "A < ax + xb + dd"
  show "rebalanced (Num A) (Num ax, Num xb, Num dd) =
             (Num (ax * (min A (ax + xb) / (ax + xb))), Num (xb * (min A (ax + xb) / (ax + xb))),
              Num (max 0 (A - (ax + xb))), Num 0)"
    using assms ex
    by (simp add: rebalanced_def single_diffr_AX_def single_diffr_XB_def rescale_a_excess
        double_diffr_Num nondiffractive_all_Num max_def min_def)
  show "min A (ax + xb) / (ax + xb) \<le> 1" using assms by (simp add: min_def)
  have "ax * (min A (ax + xb) / (ax + xb)) + xb * (min A (ax + xb) / (ax + xb))
          = (ax + xb) * (min A (ax + xb) / (ax + xb))"
    by (rule distrib_right [symmetric])
  also have "\<dots> = min A (ax + xb)" using assms by simp
  finally show "ax * (min A (ax + xb) / (ax + xb)) + xb * (min A (ax + xb) / (ax + xb))
             + max 0 (A - (ax + xb)) = A"
    by (simp add: min_def max_def)
next
  assume "ax + xb + dd \<le> A"
  then show "rebalanced (Num A) (Num ax, Num xb, Num dd) =
             (Num ax, Num xb, Num dd, Num (A - (ax + xb + dd)))"
    using assms
    by (simp add: rebalanced_def single_diffr_AX_def single_diffr_XB_def rescale_a_no_excess
        double_diffr_Num nondiffractive_all_Num max_def min_def)
qed


text \<open>
  The amended C3 at three inputs: an excess that the double-diffractive piece absorbs, an
  excess that also scales the single-diffractive pieces, and no excess.
\<close>

theorem rebalancing_witness:
  "rebalanced (Num 1) (Num (3 / 10), Num (3 / 10), Num (6 / 10)) =
     (Num (3 / 10), Num (3 / 10), Num (4 / 10), Num 0) \<and>
   rebalanced (Num 1) (Num (8 / 10), Num (8 / 10), Num (6 / 10)) =
     (Num (1 / 2), Num (1 / 2), Num 0, Num 0) \<and>
   rebalanced (Num 1) (Num (2 / 10), Num (3 / 10), Num (1 / 10)) =
     (Num (2 / 10), Num (3 / 10), Num (1 / 10), Num (4 / 10))"
  using rebalancing_drains_double_then_single [of 1 "3 / 10" "3 / 10" "6 / 10"]
    rebalancing_drains_double_then_single [of 1 "8 / 10" "8 / 10" "6 / 10"]
    rebalancing_drains_double_then_single [of 1 "2 / 10" "3 / 10" "1 / 10"]
  by simp


subsection \<open>The unguarded division\<close>



section \<open>Properties of the concrete inputs\<close>

lemma example_env_simps:
  "sqrt_s (example_env s) = Num s"
  "mandelstam_s (example_env s) = Num (s * s)"
  "cm_momentum (example_env s) = Num 1"
  "find_type (example_env s) = particle_table"
  "detailed_balance_factor_RR (example_env s) = (\<lambda>srts pcm a b c d. Num 2)"
  "ppbar_total (example_env s) = (\<lambda>s. Num 50)"
  "ppbar_elastic (example_env s) = (\<lambda>s. Num 10)"
  by (simp_all add: example_env_def)

lemma particle_table_simps:
  "particle_table pdg_p = proton" "particle_table (- pdg_p) = antiproton"
  "particle_table pdg_n = neutron" "particle_table (- pdg_n) = antineutron"
  by (simp_all add: particle_table_def pdg_p_def pdg_n_def)

lemma mass_proton: "mass proton = Num 0.938"
  by (simp add: proton_def make_type_def)

section \<open>Baryon-antibaryon creation\<close>

text \<open>
  C6, against the claim as it is worded.  With the proton mass \<open>0.938\<close> and
  \<open>sqrt_s = 1.876\<close>, \<open>sqrt_s\<close> does not exceed twice the nucleon mass, and the function
  returns the two branches, not the empty list: its test is \<^verbatim>\<open>sqrts - 2 * mass < 0\<close>.
\<close>

theorem NNbar_creation_at_threshold_counterexample:
  "d_le (sqrt_s (example_env 1.876))
        (d_mul (Num 2) (mass (find_type (example_env 1.876) pdg_p))) \<and>
   NNbar_creation_cross_section (example_env 1.876)
     (example_action (formed rho_zero) (formed rho_zero) None) =
     [\<lparr>particle_types = [proton, antiproton], weight = Num 80, get_type = TwoToTwo\<rparr>,
      \<lparr>particle_types = [neutron, antineutron], weight = Num 80, get_type = TwoToTwo\<rparr>] \<and>
   NNbar_creation_cross_section (example_env 1.876)
     (example_action (formed rho_zero) (formed rho_zero) None) \<noteq> []"
  by (simp add: NNbar_creation_cross_section_def example_env_simps particle_table_simps
      mass_proton d_sub_def d_max_def d_le_def d_eq_def Let_def)

text \<open>
  C6, amended.  For finite \<open>sqrt_s\<close> and nucleon mass: \<^verbatim>\<open>NNbar_creation_cross_section\<close>
  returns the empty list when \<open>sqrt_s\<close> is below twice the nucleon mass; otherwise, also
  at equality, it returns exactly two branches of type \<open>TwoToTwo\<close>, proton/antiproton and
  neutron/antineutron, both with the weight
  \<open>detailed_balance_factor_RR(sqrt_s, p_cm, incoming types, p, pbar) * max(0, ppbar_total(s) - ppbar_elastic(s))\<close>.
\<close>

theorem NNbar_creation_threshold:
  assumes "sqrt_s env = Num s" "mass (find_type env pdg_p) = Num m"
    and "w = d_mul (detailed_balance_factor_RR env (sqrt_s env) (cm_momentum env)
                     (ptype (fst (incoming_particles act))) (ptype (snd (incoming_particles act)))
                     (find_type env pdg_p) (find_type env (- pdg_p)))
                   (d_max (Num 0) (d_sub (ppbar_total env (mandelstam_s env))
                                         (ppbar_elastic env (mandelstam_s env))))"
  shows "(s < 2 * m \<longrightarrow> NNbar_creation_cross_section env act = []) \<and>
         (2 * m \<le> s \<longrightarrow> NNbar_creation_cross_section env act =
            [\<lparr>particle_types = [find_type env pdg_p, find_type env (- pdg_p)],
              weight = w, get_type = TwoToTwo\<rparr>,
             \<lparr>particle_types = [find_type env pdg_n, find_type env (- pdg_n)],
              weight = w, get_type = TwoToTwo\<rparr>])"
  using assms
  by (simp add: NNbar_creation_cross_section_def d_sub_def Let_def)

text \<open>The amended C6 below the threshold (\<open>sqrt_s = 1\<close>) and above it (\<open>sqrt_s = 3\<close>).\<close>

theorem NNbar_creation_threshold_witness:
  "NNbar_creation_cross_section (example_env 1)
     (example_action (formed rho_zero) (formed rho_zero) None) = [] \<and>
   NNbar_creation_cross_section (example_env 3)
     (example_action (formed rho_zero) (formed rho_zero) None) =
     [\<lparr>particle_types = [proton, antiproton], weight = Num 80, get_type = TwoToTwo\<rparr>,
      \<lparr>particle_types = [neutron, antineutron], weight = Num 80, get_type = TwoToTwo\<rparr>]"
  using NNbar_creation_threshold [of "example_env 1" 1 "0.938" "Num 80"
      "example_action (formed rho_zero) (formed rho_zero) None"]
    NNbar_creation_threshold [of "example_env 3" 3 "0.938" "Num 80"
      "example_action (formed rho_zero) (formed rho_zero) None"]
  by (simp add: example_env_simps particle_table_simps mass_proton d_sub_def d_max_def)

section \<open>The cross section of the photon action\<close>

text \<open>
  C10, against the claim as it is worded (the floor is \<open>1e-6\<close>).  With the total \<open>30\<close> and a
  photon cross section equal to the value of \<^verbatim>\<open>really_small\<close>, the photon cross section is
  below \<open>1/1000000\<close>, and the function returns the sum, not the photon cross section alone.
\<close>

theorem photon_floor_counterexample:
  "d_less (cross_section_photons (example_photon_action 30 (8796093 / 8796093022208)))
          (Num (1 / 1000000)) \<and>
   ScatterActionPhoton_cross_section (example_photon_action 30 (8796093 / 8796093022208)) =
     Num (30 + 8796093 / 8796093022208) \<and>
   ScatterActionPhoton_cross_section (example_photon_action 30 (8796093 / 8796093022208)) \<noteq>
     cross_section_photons (example_photon_action 30 (8796093 / 8796093022208))"
  by (simp add: ScatterActionPhoton_cross_section_def example_photon_action_def really_small_def)

text \<open>
  C10, amended.  \<^verbatim>\<open>ScatterActionPhoton::cross_section()\<close> returns \<^verbatim>\<open>cross_section_photons_\<close>
  alone when it is below the single-precision constant \<^verbatim>\<open>really_small\<close>, whose value
  \<open>8796093 / 2^43\<close> is below \<open>1/1000000\<close>, and \<^verbatim>\<open>total_cross_section_ + cross_section_photons_\<close>
  otherwise; on finite values the result is the photon cross section plus \<open>0\<close> or plus the
  total, so the photon contribution is part of it in both cases.
\<close>

theorem photon_cross_section_cases:
  "(d_less (cross_section_photons act) really_small \<longrightarrow>
      ScatterActionPhoton_cross_section act = cross_section_photons act) \<and>
   (\<not> d_less (cross_section_photons act) really_small \<longrightarrow>
      ScatterActionPhoton_cross_section act =
        d_add (total_cross_section act) (cross_section_photons act)) \<and>
   (cross_section_photons act = Num p \<longrightarrow> total_cross_section act = Num t \<longrightarrow>
      ScatterActionPhoton_cross_section act =
        Num ((if p < 8796093 / 8796093022208 then 0 else t) + p)) \<and>
   d_less really_small (Num (1 / 1000000))"
  by (simp add: ScatterActionPhoton_cross_section_def really_small_def)

text \<open>The amended C10 at a vanishing photon cross section and at the photon cross section \<open>2\<close>.\<close>

theorem photon_cross_section_witness:
  "ScatterActionPhoton_cross_section (example_photon_action 30 0) = Num 0 \<and>
   ScatterActionPhoton_cross_section (example_photon_action 30 2) = Num 32"
  using photon_cross_section_cases [of "example_photon_action 30 0" 0 30]
    photon_cross_section_cases [of "example_photon_action 30 2" 2 30]
  by (simp add: example_photon_action_def really_small_def)

section \<open>Resonance formation\<close>

lemma two_to_one_formation_not_conserved:
  assumes "charge R \<noteq> charge (ptype (fst (incoming_particles act))) +
                        charge (ptype (snd (incoming_particles act))) \<or>
           baryon_number R \<noteq> baryon_number (ptype (fst (incoming_particles act))) +
                        baryon_number (ptype (snd (incoming_particles act)))"
  shows "two_to_one_formation env act R srts p2 = Num 0"
  using assms by (auto simp: two_to_one_formation_def Let_def)

lemma resonance_loop_branch:
  assumes "br \<in> set (resonance_loop env act srts p2 Rs)"
  shows "\<exists>R \<in> set Rs. \<not> is_stable R \<and>
           br = \<lparr>particle_types = [R], weight = two_to_one_formation env act R srts p2,
                 get_type = TwoToOne\<rparr> \<and>
           d_greater (two_to_one_formation env act R srts p2) really_small"
  using assms
proof (induction Rs)
  case Nil
  then show ?case by simp
next
  case (Cons R Rs)
  then show ?case by (auto simp: Let_def split: if_splits)
qed

lemma not_greater_really_small_zero: "\<not> d_greater (Num 0) really_small"
  by (simp add: d_greater_def really_small_def)

lemma near_floor_weight:
  "two_to_one_formation near_floor_env
     (example_action (formed pi_plus) (formed proton) None) Delta_pp (Num 2) (Num (pi * pi)) =
   Num (999999999 / 1000000000000000)"
  by (simp add: two_to_one_formation_def near_floor_env_def example_env_def example_action_def
      formed_def pi_plus_def proton_def Delta_pp_def make_type_def d_le_def d_eq_def hbarc_def
      fm2_mb_def M_PI_def)

text \<open>
  C7, against the claim as it is worded (a branch only when the weight exceeds \<open>1e-6\<close>).  For a
  positive pion and a proton with the collaborators \<open>near_floor_env\<close>, the weight of the doubly
  charged Delta is \<open>9.99999999e-7\<close>, which does not exceed \<open>1/1000000\<close>, and
  \<^verbatim>\<open>resonance_cross_sections\<close> returns its branch.
\<close>

theorem resonance_floor_counterexample:
  "resonance_cross_sections near_floor_env
     (example_action (formed pi_plus) (formed proton) None) =
   [\<lparr>particle_types = [Delta_pp], weight = Num (999999999 / 1000000000000000),
     get_type = TwoToOne\<rparr>] \<and>
   \<not> d_greater (Num (999999999 / 1000000000000000)) (Num (1 / 1000000))"
proof -
  have l: "list_all_types near_floor_env = [proton, pi_plus, Delta_pp]"
    and s: "sqrt_s near_floor_env = Num 2"
    and p: "cm_momentum_squared near_floor_env = Num (pi * pi)"
    by (simp_all add: near_floor_env_def example_env_def)
  have st: "is_stable proton" "is_stable pi_plus" "\<not> is_stable Delta_pp"
    by (simp_all add: proton_def pi_plus_def Delta_pp_def make_type_def)
  have inc: "ptype (fst (incoming_particles (example_action (formed pi_plus) (formed proton) None))) = pi_plus"
    "ptype (snd (incoming_particles (example_action (formed pi_plus) (formed proton) None))) = proton"
    by (simp_all add: example_action_def formed_def)
  have big: "d_greater (Num (999999999 / 1000000000000000)) really_small"
    by (simp add: d_greater_def really_small_def)
  have "resonance_cross_sections near_floor_env
     (example_action (formed pi_plus) (formed proton) None) =
   [\<lparr>particle_types = [Delta_pp], weight = Num (999999999 / 1000000000000000),
     get_type = TwoToOne\<rparr>]"
    by (simp add: resonance_cross_sections_def l s p st inc near_floor_weight big Let_def)
  then show ?thesis
    by (simp add: d_greater_def)
qed

text \<open>
  C7, amended.  For every resonance candidate \<open>R\<close> and every incoming pair,
  \<^verbatim>\<open>two_to_one_formation\<close> returns exactly \<open>0\<close> when the charge or the baryon number of \<open>R\<close>
  differs from the sum over the incoming pair; and every branch that
  \<^verbatim>\<open>resonance_cross_sections\<close> returns is a \<open>TwoToOne\<close> branch of one type \<open>Q\<close> of the particle
  table whose weight is \<open>two_to_one_formation\<close> of \<open>Q\<close> and exceeds the single-precision constant
  \<^verbatim>\<open>really_small\<close>, whose value \<open>8796093 / 2^43\<close> is below \<open>1/1000000\<close>, so that \<open>Q\<close> conserves
  charge and baryon number.
\<close>

theorem resonance_formation_conserves:
  "((charge R \<noteq> charge (ptype (fst (incoming_particles act))) +
                  charge (ptype (snd (incoming_particles act))) \<or>
     baryon_number R \<noteq> baryon_number (ptype (fst (incoming_particles act))) +
                  baryon_number (ptype (snd (incoming_particles act))))
     \<longrightarrow> two_to_one_formation env act R srts p2 = Num 0) \<and>
   (\<forall>br \<in> set (resonance_cross_sections env act).
      \<exists>Q \<in> set (list_all_types env).
        particle_types br = [Q] \<and> get_type br = TwoToOne \<and>
        weight br = two_to_one_formation env act Q (sqrt_s env) (cm_momentum_squared env) \<and>
        d_greater (weight br) really_small \<and>
        d_greater (weight br) (Num (8796093 / 8796093022208)) \<and>
        charge Q = charge (ptype (fst (incoming_particles act))) +
                   charge (ptype (snd (incoming_particles act))) \<and>
        baryon_number Q = baryon_number (ptype (fst (incoming_particles act))) +
                   baryon_number (ptype (snd (incoming_particles act)))) \<and>
   d_less really_small (Num (1 / 1000000))"
proof (intro conjI impI ballI)
  assume "charge R \<noteq> charge (ptype (fst (incoming_particles act))) +
                  charge (ptype (snd (incoming_particles act))) \<or>
     baryon_number R \<noteq> baryon_number (ptype (fst (incoming_particles act))) +
                  baryon_number (ptype (snd (incoming_particles act)))"
  then show "two_to_one_formation env act R srts p2 = Num 0"
    by (rule two_to_one_formation_not_conserved)
next
  fix br
  assume "br \<in> set (resonance_cross_sections env act)"
  then obtain Q where Q: "Q \<in> set (list_all_types env)"
    and br: "br = \<lparr>particle_types = [Q],
                   weight = two_to_one_formation env act Q (sqrt_s env) (cm_momentum_squared env),
                   get_type = TwoToOne\<rparr>"
    and big: "d_greater (two_to_one_formation env act Q (sqrt_s env) (cm_momentum_squared env))
                really_small"
    unfolding resonance_cross_sections_def by (blast dest: resonance_loop_branch)
  from big
  have big': "d_greater (two_to_one_formation env act Q (sqrt_s env) (cm_momentum_squared env))
                (Num (8796093 / 8796093022208))"
    by (simp add: really_small_def)
  have "charge Q = charge (ptype (fst (incoming_particles act))) +
                   charge (ptype (snd (incoming_particles act))) \<and>
        baryon_number Q = baryon_number (ptype (fst (incoming_particles act))) +
                   baryon_number (ptype (snd (incoming_particles act)))"
    using big not_greater_really_small_zero
      two_to_one_formation_not_conserved [of Q act env "sqrt_s env" "cm_momentum_squared env"]
    by metis
  with Q br big big'
  show "\<exists>Q \<in> set (list_all_types env).
        particle_types br = [Q] \<and> get_type br = TwoToOne \<and>
        weight br = two_to_one_formation env act Q (sqrt_s env) (cm_momentum_squared env) \<and>
        d_greater (weight br) really_small \<and>
        d_greater (weight br) (Num (8796093 / 8796093022208)) \<and>
        charge Q = charge (ptype (fst (incoming_particles act))) +
                   charge (ptype (snd (incoming_particles act))) \<and>
        baryon_number Q = baryon_number (ptype (fst (incoming_particles act))) +
                   baryon_number (ptype (snd (incoming_particles act)))"
    by auto
next
  show "d_less really_small (Num (1 / 1000000))"
    by (simp add: really_small_def)
qed


lemma pi_square_bound: "(4::real) \<le> pi * pi"
proof -
  have "2 * 2 \<le> pi * pi"
    using pi_ge_two by (intro mult_mono) simp_all
  then show ?thesis by simp
qed

lemma example_weight:
  "two_to_one_formation (example_env 2)
     (example_action (formed pi_plus) (formed proton) None) Delta_pp (Num 2) (Num 1) =
   Num (38937965845664809 * (pi * pi) / 25000000000000000)"
  by (simp add: two_to_one_formation_def example_env_def example_action_def formed_def
      pi_plus_def proton_def Delta_pp_def make_type_def d_le_def d_eq_def hbarc_def fm2_mb_def
      M_PI_def)

lemma example_weight_not_small:
  "d_greater (Num (38937965845664809 * (pi * pi) / 25000000000000000)) really_small"
  using pi_square_bound by (simp add: d_greater_def really_small_def)

lemma example_resonances:
  "resonance_cross_sections (example_env 2)
     (example_action (formed pi_plus) (formed proton) None) =
   [\<lparr>particle_types = [Delta_pp],
     weight = Num (38937965845664809 * (pi * pi) / 25000000000000000),
     get_type = TwoToOne\<rparr>]"
proof -
  have l: "list_all_types (example_env 2) = [proton, pi_plus, Delta_pp]"
    and s: "sqrt_s (example_env 2) = Num 2" and p: "cm_momentum_squared (example_env 2) = Num 1"
    by (simp_all add: example_env_def)
  have st: "is_stable proton" "is_stable pi_plus" "\<not> is_stable Delta_pp"
    by (simp_all add: proton_def pi_plus_def Delta_pp_def make_type_def)
  have inc: "ptype (fst (incoming_particles (example_action (formed pi_plus) (formed proton) None))) = pi_plus"
    "ptype (snd (incoming_particles (example_action (formed pi_plus) (formed proton) None))) = proton"
    by (simp_all add: example_action_def formed_def)
  show ?thesis
    by (simp add: resonance_cross_sections_def l s p st inc example_weight example_weight_not_small)
qed

text \<open>
  The amended C7 for a positive pion and a proton: the proton is rejected as a resonance by
  its charge, and the only branch is the doubly charged Delta, whose weight exceeds the floor.
\<close>

theorem resonance_formation_witness:
  "two_to_one_formation (example_env 2)
     (example_action (formed pi_plus) (formed proton) None) proton (Num 2) (Num 1) = Num 0 \<and>
   resonance_cross_sections (example_env 2)
     (example_action (formed pi_plus) (formed proton) None) =
   [\<lparr>particle_types = [Delta_pp],
     weight = Num (38937965845664809 * (pi * pi) / 25000000000000000),
     get_type = TwoToOne\<rparr>] \<and>
   d_greater (Num (38937965845664809 * (pi * pi) / 25000000000000000)) really_small \<and>
   charge Delta_pp = charge pi_plus + charge proton \<and>
   baryon_number Delta_pp = baryon_number pi_plus + baryon_number proton"
proof -
  let ?act = "example_action (formed pi_plus) (formed proton) None"
  have inc: "ptype (fst (incoming_particles ?act)) = pi_plus"
    "ptype (snd (incoming_particles ?act)) = proton"
    by (simp_all add: example_action_def formed_def)
  have ch: "charge proton = 1" "charge pi_plus = 1" "charge Delta_pp = 2"
    "baryon_number proton = 1" "baryon_number pi_plus = 0" "baryon_number Delta_pp = 1"
    by (simp_all add: proton_def pi_plus_def Delta_pp_def make_type_def)
  have "two_to_one_formation (example_env 2) ?act proton (Num 2) (Num 1) = Num 0"
    using resonance_formation_conserves [of proton ?act "example_env 2" "Num 2" "Num 1"]
    by (simp add: inc ch)
  moreover
  have "d_greater (Num (38937965845664809 * (pi * pi) / 25000000000000000)) really_small"
    using resonance_formation_conserves [of proton ?act "example_env 2" "Num 2" "Num 1"]
    by (auto simp: example_resonances)
  ultimately show ?thesis
    by (simp add: ch example_resonances)
qed

section \<open>The regime of an action\<close>

lemma probability_pythia_Num:
  assumes "w \<noteq> 0"
  shows "probability_pythia (Num s) (Num e) (Num w) = Num (0.5 + 0.5 * sin (0.5 * pi * (s - e) / w))"
  using assms by (simp add: probability_pythia_def M_PI_def d_sub_def)

lemma mix_scatter_type_nucleons:
  "both_are_nucleons act \<Longrightarrow> mix_scatter_type act = Some (Num 4.5, Num 0.5)"
  by (simp add: mix_scatter_type_def)

lemma is_pythia_nucleons:
  assumes "both_are_nucleons act" "sqrt_s env = Num s"
  shows "is_pythia env act True rng =
     (if 5 < s then (True, rng)
      else if 4 < s
        then (d_greater (Num (0.5 + 0.5 * sin (pi / 2 * (s - 4.5) / 0.5))) (shd rng), stl rng)
      else (False, rng))"
  using assms
  by (simp add: is_pythia_def mix_scatter_type_nucleons d_greater_def d_sub_def uniform_def
      probability_pythia_Num)

lemma is_pythia_off:
  "is_pythia env act False rng = (False, rng)"
  by (simp add: is_pythia_def split: option.splits)

lemma is_pythia_other_species:
  assumes "\<not> both_are_nucleons act"
    and "\<not> (is_pion (pdgcode (ptype (fst (incoming_particles act)))) \<and>
             is_nucleon (ptype (snd (incoming_particles act))))"
    and "\<not> (is_nucleon (ptype (fst (incoming_particles act))) \<and>
             is_pion (pdgcode (ptype (snd (incoming_particles act)))))"
  shows "is_pythia env act strings_switch rng = (False, rng)"
  using assms by (auto simp: is_pythia_def mix_scatter_type_def Let_def)

lemma add_collision_simps:
  "collision_channels (add_collision act p) = collision_channels act @ [p]"
  "incoming_particles (add_collision act p) = incoming_particles act"
  "total_cross_section (add_collision act p) = d_add (total_cross_section act) (weight p)"
  by (simp_all add: add_collision_def)

lemma add_collisions_channels:
  "collision_channels (add_collisions act pv) = collision_channels act @ pv"
  by (induction pv arbitrary: act) (simp_all add: add_collision_simps)

lemma add_collisions_incoming:
  "incoming_particles (add_collisions act pv) = incoming_particles act"
  by (induction pv arbitrary: act) (simp_all add: add_collision_simps)

lemma both_are_nucleons_cong:
  "incoming_particles a = incoming_particles b \<Longrightarrow> both_are_nucleons a = both_are_nucleons b"
  by (simp add: both_are_nucleons_def)

lemma string_excitation_cross_sections_result:
  assumes "string_excitation_cross_sections env act = Inr (channel_list, act2)"
  shows "collision_channels act2 = collision_channels act \<and>
         incoming_particles act2 = incoming_particles act \<and>
         total_cross_section act2 = total_cross_section act \<and>
         (\<forall>b \<in> set channel_list. get_type b = StringSoft \<or> get_type b = StringHard)"
  using assms
  by (auto simp: string_excitation_cross_sections_def Let_def split: if_splits option.splits)

lemma resonance_cross_sections_type:
  "b \<in> set (resonance_cross_sections env act) \<Longrightarrow> get_type b = TwoToOne"
  unfolding resonance_cross_sections_def by (auto dest: resonance_loop_branch)

lemma NNbar_creation_type:
  "b \<in> set (NNbar_creation_cross_section env act) \<Longrightarrow> get_type b = TwoToTwo"
  by (auto simp: NNbar_creation_cross_section_def Let_def split: if_splits)

lemma add_elastic_channels:
  "collision_channels (add_elastic env act elastic_parameter included_2to2 low_snn_cut) =
     collision_channels act @
       (if IncludedReactions_Elastic env \<in> included_2to2 \<and>
           \<not> reject_by_nucleon_elastic_cutoff env act low_snn_cut
        then [elastic_cross_section env act elastic_parameter] else [])"
  by (simp add: add_elastic_def add_collision_simps)

lemma add_resonances_and_two_to_two_channels:
  "collision_channels (add_resonances_and_two_to_two env act two_to_one included_2to2) =
     collision_channels act @
       (if two_to_one then resonance_cross_sections env act else []) @
       (if included_2to2 \<noteq> {} then two_to_two_cross_sections env included_2to2 else [])"
  by (simp add: add_resonances_and_two_to_two_def add_collisions_channels)

lemma add_nnbar_channels:
  "\<exists>extra. collision_channels (add_nnbar env act nnbar_treatment) = collision_channels act @ extra \<and>
           (\<forall>b \<in> set extra. get_type b = TwoToTwo)"
  by (auto simp: add_nnbar_def Let_def add_collisions_channels add_collision_simps
      NNbar_annihilation_cross_section_def dest: NNbar_creation_type)

lemma elastic_cross_section_type: "get_type (elastic_cross_section env act ep) = Elastic"
  by (simp add: elastic_cross_section_def Let_def)

lemma add_all_processes_channels:
  assumes "add_all_processes env act rng elastic_parameter two_to_one included_2to2 low_snn_cut
             strings_switch nnbar_treatment = Inr (act', rng')"
  shows "\<exists>physics extra.
           collision_channels act' =
             collision_channels (add_elastic env act elastic_parameter included_2to2 low_snn_cut)
               @ physics @ extra \<and>
           (\<forall>b \<in> set physics. get_type b = StringSoft \<or> get_type b = StringHard \<or>
               get_type b = TwoToOne \<or> b \<in> set (two_to_two_cross_sections env included_2to2)) \<and>
           (\<forall>b \<in> set extra. get_type b = TwoToTwo)"
proof -
  let ?act1 = "add_elastic env act elastic_parameter included_2to2 low_snn_cut"
  obtain pythia r where py: "is_pythia env act strings_switch rng = (pythia, r)"
    by (cases "is_pythia env act strings_switch rng")
  show ?thesis
  proof (cases pythia)
    case True
    with assms py obtain channel_list act2
      where s: "string_excitation_cross_sections env ?act1 = Inr (channel_list, act2)"
        and a: "act' = add_nnbar env (add_collisions act2 channel_list) nnbar_treatment"
      by (auto simp: add_all_processes_def split: sum.splits)
    from add_nnbar_channels [of env "add_collisions act2 channel_list" nnbar_treatment]
    obtain extra where e: "collision_channels act' =
        collision_channels (add_collisions act2 channel_list) @ extra"
      and t: "\<forall>b \<in> set extra. get_type b = TwoToTwo"
      unfolding a by blast
    from string_excitation_cross_sections_result [OF s]
    have "collision_channels act2 = collision_channels ?act1"
      and "\<forall>b \<in> set channel_list. get_type b = StringSoft \<or> get_type b = StringHard"
      by simp_all
    with e t have "collision_channels act' = collision_channels ?act1 @ channel_list @ extra \<and>
        (\<forall>b \<in> set channel_list. get_type b = StringSoft \<or> get_type b = StringHard \<or>
               get_type b = TwoToOne \<or> b \<in> set (two_to_two_cross_sections env included_2to2)) \<and>
        (\<forall>b \<in> set extra. get_type b = TwoToTwo)"
      by (auto simp: add_collisions_channels)
    then show ?thesis by blast
  next
    case False
    with assms py
    have a: "act' = add_nnbar env
                (add_resonances_and_two_to_two env ?act1 two_to_one included_2to2) nnbar_treatment"
      by (auto simp: add_all_processes_def)
    let ?physics = "(if two_to_one then resonance_cross_sections env ?act1 else []) @
       (if included_2to2 \<noteq> {} then two_to_two_cross_sections env included_2to2 else [])"
    from add_nnbar_channels
      [of env "add_resonances_and_two_to_two env ?act1 two_to_one included_2to2" nnbar_treatment]
    obtain extra where e: "collision_channels act' =
        collision_channels (add_resonances_and_two_to_two env ?act1 two_to_one included_2to2) @ extra"
      and t: "\<forall>b \<in> set extra. get_type b = TwoToTwo"
      unfolding a by blast
    have "\<forall>b \<in> set ?physics. get_type b = StringSoft \<or> get_type b = StringHard \<or>
               get_type b = TwoToOne \<or> b \<in> set (two_to_two_cross_sections env included_2to2)"
      by (auto dest: resonance_cross_sections_type)
    with e t have "collision_channels act' = collision_channels ?act1 @ ?physics @ extra \<and>
        (\<forall>b \<in> set ?physics. get_type b = StringSoft \<or> get_type b = StringHard \<or>
               get_type b = TwoToOne \<or> b \<in> set (two_to_two_cross_sections env included_2to2)) \<and>
        (\<forall>b \<in> set extra. get_type b = TwoToTwo)"
      by (auto simp: add_resonances_and_two_to_two_channels)
    then show ?thesis by blast
  qed
qed

subsection \<open>Evaluation on the concrete inputs\<close>

lemma both_nucleons_pp: "both_are_nucleons (example_action (formed proton) (formed proton) sp)"
  by (simp add: both_are_nucleons_def example_action_def formed_def proton_def make_type_def)


lemma example_incoming:
  "incoming_particles (example_action a b sp) = (a, b)"
  "collision_channels (example_action a b sp) = []"
  "string_process (example_action a b sp) = sp"
  "time_of_execution (example_action a b sp) = Num 1"
  by (simp_all add: example_action_def)

lemma proton_simps:
  "is_nucleon proton" "is_stable proton" "charge proton = 1" "baryon_number proton = 1"
  "antiparticle_sign proton = 1" "deexcited_baryon_number (pdgcode proton) = 1"
  "\<not> is_pion (pdgcode proton)"
  by (simp_all add: proton_def make_type_def)

lemma Delta_pp_simps:
  "\<not> is_nucleon Delta_pp" "\<not> is_stable Delta_pp" "charge Delta_pp = 2"
  "baryon_number Delta_pp = 1" "\<not> is_pion (pdgcode Delta_pp)"
  by (simp_all add: Delta_pp_def make_type_def)

lemma pi_plus_simps:
  "\<not> is_nucleon pi_plus" "is_stable pi_plus" "charge pi_plus = 1" "baryon_number pi_plus = 0"
  "is_pion (pdgcode pi_plus)"
  by (simp_all add: pi_plus_def make_type_def)

lemma rho_zero_simps:
  "\<not> is_nucleon rho_zero" "\<not> is_pion (pdgcode rho_zero)" "\<not> is_stable rho_zero"
  "charge rho_zero = 0" "baryon_number rho_zero = 0"
  by (simp_all add: rho_zero_def make_type_def)

lemma ptype_formed: "ptype (formed t) = t" "formation_time (formed t) = Num 0"
  "cross_section_scaling_factor (formed t) = Num 1"
  by (simp_all add: formed_def)

lemma example_no_resonances_pp:
  "resonance_cross_sections (example_env s) (add_elastic (example_env s)
      (example_action (formed proton) (formed proton) sp) ep incl lcut) = []"
proof -
  have l: "list_all_types (example_env s) = [proton, pi_plus, Delta_pp]"
    by (simp add: example_env_def)
  have i: "incoming_particles (add_elastic (example_env s)
      (example_action (formed proton) (formed proton) sp) ep incl lcut) = (formed proton, formed proton)"
    by (simp add: add_elastic_def add_collision_simps example_incoming)
  have "two_to_one_formation (example_env s) (add_elastic (example_env s)
      (example_action (formed proton) (formed proton) sp) ep incl lcut) Delta_pp x y = Num 0" for x y
    by (rule two_to_one_formation_not_conserved)
      (simp add: i ptype_formed proton_simps Delta_pp_simps)
  then show ?thesis
    by (simp add: resonance_cross_sections_def l proton_simps pi_plus_simps Delta_pp_simps
        not_greater_really_small_zero i ptype_formed Let_def)
qed


lemma exp_minus_two_bounds: "0 < 1 / 2 + exp (- 2 :: real) / 2" "0 < 1 / 2 - exp (- 2 :: real) / 2"
  by (simp_all add: add_pos_pos)

lemma example_string_channels:
  assumes sp: "string_process act =
      Some (example_string_process (Num (1 / 5), Num (1 / 5), Num (1 / 10)) k)"
  shows "string_excitation_cross_sections (example_env s) act =
     Inr ([\<lparr>particle_types = [], weight = Num (1 / 2 + exp (- 2) / 2), get_type = StringSoft\<rparr>,
           \<lparr>particle_types = [], weight = Num (1 / 2 - exp (- 2) / 2), get_type = StringHard\<rparr>],
          act\<lparr>string_sub_cross_sections_sum :=
                 [Num 0, Num (1 / 5), Num (2 / 5), Num (1 / 2), Num (1 / 2 + exp (- 2) / 2), Num 1]\<rparr>)"
proof -
  have xs: "cross_sections_diffractive
      (example_string_process (Num (1 / 5), Num (1 / 5), Num (1 / 10)) k) a b c =
      (Num (1 / 5), Num (1 / 5), Num (1 / 10))" for a b c
    by (simp add: example_string_process_def)
  have ok: "rebalance_assertion (Num 1) (Num (1 / 5), Num (1 / 5), Num (1 / 10))"
    by (simp add: rebalance_assertion_def rebalanced_sum d_sub_def)
  have hx: "string_hard_cross_section (example_env s) = Num 1"
    by (simp add: example_env_def)
  have hard: "nondiffractive_hard (Num 1) (Num (1 / 5), Num (1 / 5), Num (1 / 10)) (Num 1) =
      Num (1 / 2 - exp (- 2) / 2)"
    by (simp add: nondiffractive_hard_def nondiffractive_soft_def nondiffractive_all_Num d_sub_def)
  have pieces: "string_sub_cross_sections (Num 1) (Num (1 / 5), Num (1 / 5), Num (1 / 10)) (Num 1) =
      [Num (1 / 5), Num (1 / 5), Num (1 / 10), Num (exp (- 2) / 2), Num (1 / 2 - exp (- 2) / 2)]"
    by (simp add: string_sub_cross_sections_def single_diffr_AX_def single_diffr_XB_def
        rescale_a_no_excess double_diffr_Num hard
        nondiffractive_soft_def nondiffractive_all_Num)
  show ?thesis
    by (simp add: string_excitation_cross_sections_def sig_string_all_example d_greater_def sp xs
        ok hx hard pieces d_sub_def exp_minus_two_bounds Let_def)
qed

lemma example_two_to_two:
  "two_to_two_cross_sections (example_env s) {0} = []"
  "two_to_two_cross_sections (example_env s) {0, 2} =
     [\<lparr>particle_types = [neutron, Delta_pp], weight = Num 3, get_type = TwoToTwo\<rparr>]"
  by (simp_all add: example_env_def)

lemma add_nnbar_NoAnnihilation: "add_nnbar env act NoAnnihilation = act"
  by (simp add: add_nnbar_def)

lemma example_elastic_type:
  "map get_type (collision_channels (add_elastic (example_env s)
      (example_action (formed proton) (formed proton) sp) ep {0} lcut)) =
   (if d_less (Num s) lcut then [] else [Elastic])"
  by (simp add: add_elastic_channels example_incoming reject_by_nucleon_elastic_cutoff_def
      both_nucleons_pp ptype_formed example_env_def elastic_cross_section_type)

lemma add_all_processes_no_strings:
  "add_all_processes env act rng elastic_parameter two_to_one included_2to2 low_snn_cut False
     nnbar_treatment =
   Inr (add_nnbar env
          (add_resonances_and_two_to_two env
             (add_elastic env act elastic_parameter included_2to2 low_snn_cut)
             two_to_one included_2to2) nnbar_treatment, rng)"
  by (simp add: add_all_processes_def is_pythia_off)

subsection \<open>String fragmentation or resonances\<close>

lemma add_collisions_total:
  "total_cross_section (add_collisions act pv) = total_after act pv"
  by (induction pv arbitrary: act) (simp_all add: add_collision_simps)

lemma add_collision_fields:
  "string_process (add_collision act p) = string_process act"
  "string_sub_cross_sections_sum (add_collision act p) = string_sub_cross_sections_sum act"
  by (simp_all add: add_collision_def)

lemma add_collisions_fields:
  "string_process (add_collisions act pv) = string_process act"
  "string_sub_cross_sections_sum (add_collisions act pv) = string_sub_cross_sections_sum act"
  by (induction pv arbitrary: act) (simp_all add: add_collision_fields)

lemma two_to_one_formation_cong:
  "incoming_particles a = incoming_particles b \<Longrightarrow>
   two_to_one_formation env a R srts p2 = two_to_one_formation env b R srts p2"
  by (simp add: two_to_one_formation_def Let_def)

lemma resonance_loop_cong:
  "incoming_particles a = incoming_particles b \<Longrightarrow>
   resonance_loop env a srts p2 Rs = resonance_loop env b srts p2 Rs"
  by (induction Rs) (simp_all add: two_to_one_formation_cong [of a b] Let_def)

lemma resonance_cross_sections_cong:
  "incoming_particles a = incoming_particles b \<Longrightarrow>
   resonance_cross_sections env a = resonance_cross_sections env b"
  by (simp add: resonance_cross_sections_def resonance_loop_cong [of a b])

lemma NNbar_creation_cong:
  "incoming_particles a = incoming_particles b \<Longrightarrow>
   NNbar_creation_cross_section env a = NNbar_creation_cross_section env b"
  by (simp add: NNbar_creation_cross_section_def Let_def)

lemma NNbar_annihilation_cong:
  "total_cross_section a = total_cross_section b \<Longrightarrow>
   NNbar_annihilation_cross_section env a = NNbar_annihilation_cross_section env b"
  by (simp add: NNbar_annihilation_cross_section_def cross_section_def Let_def)

lemma both_are_nucleons_incoming:
  "incoming_particles a = incoming_particles b \<Longrightarrow> both_are_nucleons a = both_are_nucleons b"
  by (simp add: both_are_nucleons_def)

lemma add_elastic_effect:
  "collision_channels (add_elastic env act ep incl lcut) =
     collision_channels act @ elastic_branches env act ep incl lcut"
  "total_cross_section (add_elastic env act ep incl lcut) =
     total_after act (elastic_branches env act ep incl lcut)"
  "incoming_particles (add_elastic env act ep incl lcut) = incoming_particles act"
  "string_process (add_elastic env act ep incl lcut) = string_process act"
  "string_sub_cross_sections_sum (add_elastic env act ep incl lcut) =
     string_sub_cross_sections_sum act"
  by (auto simp: add_elastic_def add_collision_simps add_collision_fields
      reject_by_nucleon_elastic_cutoff_def)

lemma add_resonances_effect:
  "collision_channels (add_resonances_and_two_to_two env a tto incl) =
     collision_channels a @ resonance_branches env a tto incl"
  "total_cross_section (add_resonances_and_two_to_two env a tto incl) =
     total_after a (resonance_branches env a tto incl)"
  "incoming_particles (add_resonances_and_two_to_two env a tto incl) = incoming_particles a"
  "string_sub_cross_sections_sum (add_resonances_and_two_to_two env a tto incl) =
     string_sub_cross_sections_sum a"
  by (simp_all add: add_resonances_and_two_to_two_def add_collisions_channels
      add_collisions_total add_collisions_incoming add_collisions_fields)

lemma add_nnbar_effect:
  "collision_channels (add_nnbar env a nt) = collision_channels a @ nnbar_branches env a nt []"
  "total_cross_section (add_nnbar env a nt) = total_after a (nnbar_branches env a nt [])"
  "incoming_particles (add_nnbar env a nt) = incoming_particles a"
  "string_sub_cross_sections_sum (add_nnbar env a nt) = string_sub_cross_sections_sum a"
proof -
  have c: "NNbar_creation_cross_section env (add_collision a p) = NNbar_creation_cross_section env a"
    for p by (rule NNbar_creation_cong) (simp add: add_collision_simps)
  have n: "NNbar_annihilation_cross_section env (a\<lparr>total_cross_section := total_cross_section a\<rparr>) =
      NNbar_annihilation_cross_section env a"
    by (rule NNbar_annihilation_cong) simp
  show "collision_channels (add_nnbar env a nt) = collision_channels a @ nnbar_branches env a nt []"
    "total_cross_section (add_nnbar env a nt) = total_after a (nnbar_branches env a nt [])"
    "incoming_particles (add_nnbar env a nt) = incoming_particles a"
    "string_sub_cross_sections_sum (add_nnbar env a nt) = string_sub_cross_sections_sum a"
    by (simp_all add: add_nnbar_def Let_def add_collisions_channels add_collisions_total
        add_collisions_incoming add_collision_simps c n add_collisions_fields
        add_collision_fields)
qed

lemma nnbar_branches_after:
  fixes a act :: "('g, 'z) ScatterAction_scheme"
  assumes "incoming_particles a = incoming_particles act"
    and "total_cross_section a = total_after act channels"
  shows "nnbar_branches env a nt [] = nnbar_branches env act nt channels"
proof -
  have "NNbar_annihilation_cross_section env (a\<lparr>total_cross_section := total_cross_section a\<rparr>) =
      NNbar_annihilation_cross_section env (act\<lparr>total_cross_section := total_after act channels\<rparr>)"
    by (rule NNbar_annihilation_cong) (simp add: assms(2))
  moreover have "NNbar_creation_cross_section env a = NNbar_creation_cross_section env act"
    by (rule NNbar_creation_cong) (rule assms(1))
  ultimately show ?thesis by (simp add: assms(1))
qed

lemma add_nnbar_after:
  fixes a act :: "('g, 'z) ScatterAction_scheme"
  assumes "incoming_particles a = incoming_particles act"
    and "collision_channels a = collision_channels act @ channels"
    and "total_cross_section a = total_after act channels"
    and "string_sub_cross_sections_sum a = sub_sum"
  shows "returns_with act (channels @ nnbar_branches env act nt channels) sub_sum
           (Inr (add_nnbar env a nt, r)) r"
  using assms
  by (simp add: add_nnbar_effect nnbar_branches_after [OF assms(1,3)])

lemma add_all_processes_resonances:
  fixes act :: "('g, 'z) ScatterAction_scheme"
  assumes "is_pythia env act strings_switch rng = (False, r)"
  shows "returns_with act
           (elastic_branches env act ep incl lcut @ resonance_branches env act tto incl @
            nnbar_branches env act nt
              (elastic_branches env act ep incl lcut @ resonance_branches env act tto incl))
           (string_sub_cross_sections_sum act)
           (add_all_processes env act rng ep tto incl lcut strings_switch nt) r"
proof -
  let ?a1 = "add_elastic env act ep incl lcut"
  let ?a2 = "add_resonances_and_two_to_two env ?a1 tto incl"
  have res: "add_all_processes env act rng ep tto incl lcut strings_switch nt =
      Inr (add_nnbar env ?a2 nt, r)"
    using assms by (simp add: add_all_processes_def)
  have rb: "resonance_branches env ?a1 tto incl = resonance_branches env act tto incl"
    using resonance_cross_sections_cong [of ?a1 act env] by (simp add: add_elastic_effect)
  have i: "incoming_particles ?a2 = incoming_particles act"
    by (simp add: add_resonances_effect add_elastic_effect)
  have c: "collision_channels ?a2 = collision_channels act @
      (elastic_branches env act ep incl lcut @ resonance_branches env act tto incl)"
    by (simp only: add_resonances_effect add_elastic_effect rb append_assoc)
  have t: "total_cross_section ?a2 =
      total_after act (elastic_branches env act ep incl lcut @ resonance_branches env act tto incl)"
    by (simp only: add_resonances_effect add_elastic_effect rb map_append foldl_append)
  have u: "string_sub_cross_sections_sum ?a2 = string_sub_cross_sections_sum act"
    by (simp add: add_resonances_effect add_elastic_effect)
  show ?thesis
    unfolding res using add_nnbar_after [OF i c t u, of env nt r] by (simp only: append_assoc)
qed

lemma string_excitation_cross_sections_cong:
  fixes a b :: "('g, 'z) ScatterAction_scheme"
  assumes "incoming_particles a = incoming_particles b" "string_process a = string_process b"
    and "string_sub_cross_sections_sum b = string_sub_cross_sections_sum a"
  shows "(string_excitation_cross_sections env a = Inl e \<longrightarrow>
            string_excitation_cross_sections env b = Inl e) \<and>
         (string_excitation_cross_sections env a = Inr (cl, a2) \<longrightarrow>
            string_excitation_cross_sections env b =
              Inr (cl, b\<lparr>string_sub_cross_sections_sum := string_sub_cross_sections_sum a2\<rparr>))"
proof -
  have same: "b\<lparr>string_sub_cross_sections_sum := string_sub_cross_sections_sum a\<rparr> = b"
    using assms(3) [symmetric] by simp
  show ?thesis
    using assms(1,2) same
    by (auto simp: string_excitation_cross_sections_def Let_def split: option.splits if_splits)
qed

lemma add_all_processes_strings:
  fixes act :: "('g, 'z) ScatterAction_scheme"
  assumes "is_pythia env act strings_switch rng = (True, r)"
  shows "case string_excitation_cross_sections env act of
           Inl e \<Rightarrow> add_all_processes env act rng ep tto incl lcut strings_switch nt = Inl e
         | Inr (channel_list, act2) \<Rightarrow>
             returns_with act
               (elastic_branches env act ep incl lcut @ channel_list @
                nnbar_branches env act nt (elastic_branches env act ep incl lcut @ channel_list))
               (string_sub_cross_sections_sum act2)
               (add_all_processes env act rng ep tto incl lcut strings_switch nt) r"
proof (cases "string_excitation_cross_sections env act")
  case (Inl e)
  let ?a1 = "add_elastic env act ep incl lcut"
  have "string_excitation_cross_sections env ?a1 = Inl e"
    using string_excitation_cross_sections_cong [of act ?a1 env e] Inl
    by (simp add: add_elastic_effect)
  then show ?thesis
    using assms Inl by (simp add: add_all_processes_def)
next
  case (Inr p)
  obtain cl act2 where p: "p = (cl, act2)" by (cases p)
  let ?a1 = "add_elastic env act ep incl lcut"
  let ?b = "?a1\<lparr>string_sub_cross_sections_sum := string_sub_cross_sections_sum act2\<rparr>"
  let ?a2 = "add_collisions ?b cl"
  have sx: "string_excitation_cross_sections env ?a1 = Inr (cl, ?b)"
    using string_excitation_cross_sections_cong [of act ?a1 env _ cl act2] Inr p
    by (simp add: add_elastic_effect)
  have res: "add_all_processes env act rng ep tto incl lcut strings_switch nt =
      Inr (add_nnbar env ?a2 nt, r)"
    using assms sx by (simp add: add_all_processes_def)
  have i: "incoming_particles ?a2 = incoming_particles act"
    by (simp add: add_collisions_incoming add_elastic_effect)
  have c: "collision_channels ?a2 = collision_channels act @
      (elastic_branches env act ep incl lcut @ cl)"
    by (simp add: add_collisions_channels add_elastic_effect)
  have t: "total_cross_section ?a2 = total_after act (elastic_branches env act ep incl lcut @ cl)"
    by (simp add: add_collisions_total add_elastic_effect)
  have u: "string_sub_cross_sections_sum ?a2 = string_sub_cross_sections_sum act2"
    by (simp add: add_collisions_fields)
  have "returns_with act
               (elastic_branches env act ep incl lcut @ cl @
                nnbar_branches env act nt (elastic_branches env act ep incl lcut @ cl))
               (string_sub_cross_sections_sum act2)
               (add_all_processes env act rng ep tto incl lcut strings_switch nt) r"
    unfolding res using add_nnbar_after [OF i c t u, of env nt r] by (simp only: append_assoc)
  then show ?thesis
    using Inr p by simp
qed

text \<open>
  C2: in \<^verbatim>\<open>add_all_processes\<close>, with a finite \<open>sqrt_s = s\<close>.  For a nucleon-nucleon pair with
  strings enabled: above \<open>5\<close> the local \<^verbatim>\<open>is_pythia\<close> is true, no random number is drawn, and the
  run adds, after the elastic branch, the branches that \<^verbatim>\<open>string_excitation_cross_sections\<close>
  returns (or ends in its error); at or below \<open>4\<close> it is false, no random number is drawn, and
  the run adds the branches of \<^verbatim>\<open>resonance_cross_sections\<close> (when \<open>two_to_one\<close>) and of
  \<^verbatim>\<open>two_to_two_cross_sections\<close> (when a reaction is included); in between, exactly one uniform
  number is drawn (the head of the stream; the tail is returned) and string treatment is taken
  for the whole action if and only if \<open>p = 0.5 + 0.5 sin(pi/2 (s - 4.5) / 0.5)\<close> exceeds it.  For
  a pair that is neither nucleon-nucleon nor pion-nucleon, \<^verbatim>\<open>is_pythia\<close> is false whatever the
  switch and the energy, and the resonance and 2-to-2 branches are added.  In every case the
  baryon-antibaryon branches follow, and the branch list, the running total and
  \<^verbatim>\<open>string_sub_cross_sections_sum_\<close> of the result are as stated.
\<close>

theorem regime_mixing:
  fixes env :: Collaborators and act :: "('g, 'z) ScatterAction_scheme"
    and elastic_parameter low_snn_cut :: double and included :: ReactionsBitSet
    and two_to_one strings_switch :: bool and nnbar_treatment :: NNbarTreatment and s :: real
    and rng :: Random
  defines "result \<equiv> add_all_processes env act rng elastic_parameter two_to_one included
                       low_snn_cut strings_switch nnbar_treatment"
  defines "elastic \<equiv> elastic_branches env act elastic_parameter included low_snn_cut"
  defines "strings \<equiv> (\<lambda>rng'.
             case string_excitation_cross_sections env act of
               Inl e \<Rightarrow> result = Inl e
             | Inr (channel_list, act2) \<Rightarrow>
                 returns_with act
                   (elastic @ channel_list @
                    nnbar_branches env act nnbar_treatment (elastic @ channel_list))
                   (string_sub_cross_sections_sum act2) result rng')"
  defines "resonances \<equiv> (\<lambda>rng'.
             returns_with act
               (elastic @ resonance_branches env act two_to_one included @
                nnbar_branches env act nnbar_treatment
                  (elastic @ resonance_branches env act two_to_one included))
               (string_sub_cross_sections_sum act) result rng')"
  defines "p \<equiv> Num (0.5 + 0.5 * sin (pi / 2 * (s - 4.5) / 0.5))"
  assumes "sqrt_s env = Num s"
  shows "(both_are_nucleons act \<and> strings_switch \<longrightarrow>
            (5 < s \<longrightarrow>
               is_pythia env act strings_switch rng = (True, rng) \<and> strings rng) \<and>
            (s \<le> 4 \<longrightarrow>
               is_pythia env act strings_switch rng = (False, rng) \<and> resonances rng) \<and>
            (4 < s \<and> s \<le> 5 \<longrightarrow>
               is_pythia env act strings_switch rng = (d_greater p (shd rng), stl rng) \<and>
               (if d_greater p (shd rng) then strings (stl rng) else resonances (stl rng)))) \<and>
         (\<not> both_are_nucleons act \<and>
          \<not> (is_pion (pdgcode (ptype (fst (incoming_particles act)))) \<and>
             is_nucleon (ptype (snd (incoming_particles act)))) \<and>
          \<not> (is_nucleon (ptype (fst (incoming_particles act))) \<and>
             is_pion (pdgcode (ptype (snd (incoming_particles act))))) \<longrightarrow>
            is_pythia env act strings_switch rng = (False, rng) \<and> resonances rng)"
proof -
  have S: "strings r" if "is_pythia env act strings_switch rng = (True, r)" for r
    unfolding strings_def result_def elastic_def
    by (rule add_all_processes_strings [OF that])
  have R: "resonances r" if "is_pythia env act strings_switch rng = (False, r)" for r
    unfolding resonances_def result_def elastic_def
    by (rule add_all_processes_resonances [OF that])
  have nn: "is_pythia env act strings_switch rng =
     (if 5 < s then (True, rng)
      else if 4 < s then (d_greater p (shd rng), stl rng)
      else (False, rng))" if "both_are_nucleons act" "strings_switch"
    unfolding p_def using is_pythia_nucleons [OF that(1) assms(6), of rng] that(2) by simp
  have hi: "is_pythia env act strings_switch rng = (True, rng) \<and> strings rng"
    if "both_are_nucleons act" "strings_switch" "5 < s"
    using nn [OF that(1,2)] that(3) S [of rng] by simp
  have lo: "is_pythia env act strings_switch rng = (False, rng) \<and> resonances rng"
    if "both_are_nucleons act" "strings_switch" "s \<le> 4"
    using nn [OF that(1,2)] that(3) R [of rng] by simp
  have mid: "is_pythia env act strings_switch rng = (d_greater p (shd rng), stl rng) \<and>
               (if d_greater p (shd rng) then strings (stl rng) else resonances (stl rng))"
    if "both_are_nucleons act" "strings_switch" "4 < s" "s \<le> 5"
  proof -
    have e: "is_pythia env act strings_switch rng = (d_greater p (shd rng), stl rng)"
      using nn [OF that(1,2)] that(3,4) by simp
    show ?thesis
      using e S [of "stl rng"] R [of "stl rng"] by (cases "d_greater p (shd rng)") simp_all
  qed
  have ot: "is_pythia env act strings_switch rng = (False, rng) \<and> resonances rng"
    if "\<not> both_are_nucleons act"
      "\<not> (is_pion (pdgcode (ptype (fst (incoming_particles act)))) \<and>
             is_nucleon (ptype (snd (incoming_particles act))))"
      "\<not> (is_nucleon (ptype (fst (incoming_particles act))) \<and>
             is_pion (pdgcode (ptype (snd (incoming_particles act)))))"
    using is_pythia_other_species [OF that, of env strings_switch rng] R [of rng] by simp
  show ?thesis
    using hi lo mid ot by blast
qed

text \<open>
  C2 for two protons at \<open>sqrt_s = 6\<close>, \<open>3\<close> and \<open>4.5\<close> (where \<open>p = 1/2\<close>, against the draws
  \<open>1/4\<close> and \<open>3/4\<close>), and for two neutral rho mesons; with the types of the branches that
  \<^verbatim>\<open>add_all_processes\<close> builds at \<open>6\<close> (string branches) and at \<open>3\<close> (the 2-to-2 branch of the
  collaborator; no resonance of the table has baryon number two).
\<close>

theorem regime_mixing_witness:
  "is_pythia (example_env 6) (example_action (formed proton) (formed proton) None) True
     (sconst (Num (1 / 4))) = (True, sconst (Num (1 / 4))) \<and>
   is_pythia (example_env 3) (example_action (formed proton) (formed proton) None) True
     (sconst (Num (1 / 4))) = (False, sconst (Num (1 / 4))) \<and>
   is_pythia (example_env 4.5) (example_action (formed proton) (formed proton) None) True
     (Num (1 / 4) ## sconst (Num (3 / 4))) = (True, sconst (Num (3 / 4))) \<and>
   is_pythia (example_env 4.5) (example_action (formed proton) (formed proton) None) True
     (Num (3 / 4) ## sconst (Num (1 / 4))) = (False, sconst (Num (1 / 4))) \<and>
   is_pythia (example_env 6) (example_action (formed rho_zero) (formed rho_zero) None) True
     (sconst (Num (1 / 4))) = (False, sconst (Num (1 / 4))) \<and>
   (case add_all_processes (example_env 6)
           (example_action (formed proton) (formed proton)
              (Some (example_string_process (Num (1 / 5), Num (1 / 5), Num (1 / 10)) 2)))
           (sconst (Num (1 / 4))) (Num 10) True {0, 2} (Num 1) True NoAnnihilation of
      Inl e \<Rightarrow> []
    | Inr (a, r) \<Rightarrow> map get_type (collision_channels a)) = [Elastic, StringSoft, StringHard] \<and>
   (case add_all_processes (example_env 3)
           (example_action (formed proton) (formed proton)
              (Some (example_string_process (Num (1 / 5), Num (1 / 5), Num (1 / 10)) 2)))
           (sconst (Num (1 / 4))) (Num 10) True {0, 2} (Num 1) True NoAnnihilation of
      Inl e \<Rightarrow> []
    | Inr (a, r) \<Rightarrow> map get_type (collision_channels a)) = [Elastic, TwoToTwo]"
proof -
  let ?pp = "example_action (formed proton) (formed proton) None"
  let ?ps = "example_action (formed proton) (formed proton)
              (Some (example_string_process (Num (1 / 5), Num (1 / 5), Num (1 / 10)) 2))"
  let ?rr = "example_action (formed rho_zero) (formed rho_zero) None"
  have pp: "both_are_nucleons ?pp" and ps: "both_are_nucleons ?ps"
    by (rule both_nucleons_pp)+
  have rr: "\<not> both_are_nucleons ?rr \<and>
    \<not> (is_pion (pdgcode (ptype (fst (incoming_particles ?rr)))) \<and>
             is_nucleon (ptype (snd (incoming_particles ?rr)))) \<and>
    \<not> (is_nucleon (ptype (fst (incoming_particles ?rr))) \<and>
             is_pion (pdgcode (ptype (snd (incoming_particles ?rr)))))"
    by (simp add: both_are_nucleons_def example_incoming ptype_formed rho_zero_simps)
  have s: "sqrt_s (example_env x) = Num x" for x by (simp add: example_env_def)
  have 1: "is_pythia (example_env 6) ?pp True (sconst (Num (1 / 4))) = (True, sconst (Num (1 / 4)))"
    using regime_mixing [where env = "example_env 6" and s = "6" and act = ?pp and strings_switch = True
        and rng = "sconst (Num (1 / 4))", OF s] pp by simp
  have 2: "is_pythia (example_env 3) ?pp True (sconst (Num (1 / 4))) = (False, sconst (Num (1 / 4)))"
    using regime_mixing [where env = "example_env 3" and s = "3" and act = ?pp and strings_switch = True
        and rng = "sconst (Num (1 / 4))", OF s] pp by simp
  have 3: "is_pythia (example_env 4.5) ?pp True (Num (1 / 4) ## sconst (Num (3 / 4))) =
      (True, sconst (Num (3 / 4)))"
    using regime_mixing [where env = "example_env 4.5" and s = "4.5" and act = ?pp and strings_switch = True
        and rng = "Num (1 / 4) ## sconst (Num (3 / 4))", OF s] pp
    by (simp add: d_greater_def)
  have 4: "is_pythia (example_env 4.5) ?pp True (Num (3 / 4) ## sconst (Num (1 / 4))) =
      (False, sconst (Num (1 / 4)))"
    using regime_mixing [where env = "example_env 4.5" and s = "4.5" and act = ?pp and strings_switch = True
        and rng = "Num (3 / 4) ## sconst (Num (1 / 4))", OF s] pp
    by (simp add: d_greater_def)
  have 5: "is_pythia (example_env 6) ?rr True (sconst (Num (1 / 4))) = (False, sconst (Num (1 / 4)))"
    using regime_mixing [where env = "example_env 6" and s = "6" and act = ?rr and strings_switch = True
        and rng = "sconst (Num (1 / 4))", OF s] rr by simp
  have sp: "string_process ?ps =
      Some (example_string_process (Num (1 / 5), Num (1 / 5), Num (1 / 10)) 2)"
    by (simp add: example_incoming)
  have ch: "collision_channels ?ps = []" by (simp add: example_incoming)
  have ie: "IncludedReactions_Elastic (example_env x) = 0" for x by (simp add: example_env_def)
  have 6: "(case add_all_processes (example_env 6) ?ps (sconst (Num (1 / 4))) (Num 10) True {0, 2}
                  (Num 1) True NoAnnihilation of
      Inl e \<Rightarrow> []
    | Inr (a, r) \<Rightarrow> map get_type (collision_channels a)) = [Elastic, StringSoft, StringHard]"
    using regime_mixing [where env = "example_env 6" and s = 6 and act = ?ps and strings_switch = True
        and rng = "sconst (Num (1 / 4))" and elastic_parameter = "Num 10"
        and included = "{0, 2}" and low_snn_cut = "Num 1"
        and nnbar_treatment = NoAnnihilation and two_to_one = True, OF s] ps
    by (auto simp: example_string_channels [OF sp] ie s ch elastic_cross_section_type)
  have 7: "(case add_all_processes (example_env 3) ?ps (sconst (Num (1 / 4))) (Num 10) True {0, 2}
                  (Num 1) True NoAnnihilation of
      Inl e \<Rightarrow> []
    | Inr (a, r) \<Rightarrow> map get_type (collision_channels a)) = [Elastic, TwoToTwo]"
    using regime_mixing [where env = "example_env 3" and s = 3 and act = ?ps and strings_switch = True
        and rng = "sconst (Num (1 / 4))" and elastic_parameter = "Num 10"
        and included = "{0, 2}" and low_snn_cut = "Num 1"
        and nnbar_treatment = NoAnnihilation and two_to_one = True, OF s] ps
    by (auto simp: ie s ch elastic_cross_section_type example_two_to_two
        example_no_resonances_pp [where incl = "{}", unfolded add_elastic_def, simplified])
  from 1 2 3 4 5 6 7 show ?thesis by simp
qed

subsection \<open>The elastic branch\<close>

text \<open>
  C8: for a run of \<^verbatim>\<open>add_all_processes\<close> that returns, on an action whose branch list held no
  elastic branch, and with a 2-to-2 collaborator that returns no branch of type \<open>Elastic\<close>:
  the resulting list holds an elastic branch if and only if elastic reactions are included and
  it is not the case that both particles are nucleons of the same antiparticle sign with
  \<open>sqrt_s\<close> below \<open>low_snn_cut\<close>; and in that case the branch of \<^verbatim>\<open>elastic_cross_section\<close> is
  in the list.  The stage that decides it runs first and cannot fail: after it the branch list
  is the former list, followed by the elastic branch under exactly that condition.
\<close>

theorem elastic_branch_cutoff:
  assumes "add_all_processes env act rng elastic_parameter two_to_one included_2to2 low_snn_cut
             strings_switch nnbar_treatment = Inr (act', rng')"
    and "\<forall>b \<in> set (collision_channels act). get_type b \<noteq> Elastic"
    and "\<forall>b \<in> set (two_to_two_cross_sections env included_2to2). get_type b \<noteq> Elastic"
  shows "((\<exists>b \<in> set (collision_channels act'). get_type b = Elastic) \<longleftrightarrow>
            IncludedReactions_Elastic env \<in> included_2to2 \<and>
            \<not> (both_are_nucleons act \<and>
               antiparticle_sign (ptype (fst (incoming_particles act))) =
                 antiparticle_sign (ptype (snd (incoming_particles act))) \<and>
               d_less (sqrt_s env) low_snn_cut)) \<and>
         (IncludedReactions_Elastic env \<in> included_2to2 \<and>
            \<not> (both_are_nucleons act \<and>
               antiparticle_sign (ptype (fst (incoming_particles act))) =
                 antiparticle_sign (ptype (snd (incoming_particles act))) \<and>
               d_less (sqrt_s env) low_snn_cut)
          \<longrightarrow> elastic_cross_section env act elastic_parameter \<in> set (collision_channels act')) \<and>
         collision_channels (add_elastic env act elastic_parameter included_2to2 low_snn_cut) =
           collision_channels act @
             (if IncludedReactions_Elastic env \<in> included_2to2 \<and>
                 \<not> (both_are_nucleons act \<and>
                    antiparticle_sign (ptype (fst (incoming_particles act))) =
                      antiparticle_sign (ptype (snd (incoming_particles act))) \<and>
                    d_less (sqrt_s env) low_snn_cut)
              then [elastic_cross_section env act elastic_parameter] else [])"
proof -
  from add_all_processes_channels [OF assms(1)]
  obtain physics extra where c: "collision_channels act' =
             collision_channels (add_elastic env act elastic_parameter included_2to2 low_snn_cut)
               @ physics @ extra"
    and p: "\<forall>b \<in> set physics. get_type b = StringSoft \<or> get_type b = StringHard \<or>
               get_type b = TwoToOne \<or> b \<in> set (two_to_two_cross_sections env included_2to2)"
    and e: "\<forall>b \<in> set extra. get_type b = TwoToTwo"
    by blast
  have np: "\<forall>b \<in> set physics. get_type b \<noteq> Elastic"
    using p assms(3) by fastforce
  have ne: "\<forall>b \<in> set extra. get_type b \<noteq> Elastic"
    using e by simp
  show ?thesis
    using np ne assms(2)
    by (auto simp: c add_elastic_channels reject_by_nucleon_elastic_cutoff_def
        elastic_cross_section_type)
qed

text \<open>
  C8 for two protons at \<open>sqrt_s = 3\<close> with elastic reactions included: no elastic branch under
  the cut \<open>3.5\<close>, the elastic branch under the cut \<open>1\<close>.
\<close>

theorem elastic_branch_cutoff_witness:
  "\<not> isl (add_all_processes (example_env 3) (example_action (formed proton) (formed proton) None)
            (sconst (Num (1 / 4))) (Num 10) True {0} (Num 3.5) False NoAnnihilation) \<and>
   \<not> (\<exists>b \<in> set (collision_channels (fst (projr
            (add_all_processes (example_env 3) (example_action (formed proton) (formed proton) None)
               (sconst (Num (1 / 4))) (Num 10) True {0} (Num 3.5) False NoAnnihilation)))).
          get_type b = Elastic) \<and>
   \<not> isl (add_all_processes (example_env 3) (example_action (formed proton) (formed proton) None)
            (sconst (Num (1 / 4))) (Num 10) True {0} (Num 1) False NoAnnihilation) \<and>
   elastic_cross_section (example_env 3) (example_action (formed proton) (formed proton) None)
       (Num 10)
     \<in> set (collision_channels (fst (projr
            (add_all_processes (example_env 3) (example_action (formed proton) (formed proton) None)
               (sconst (Num (1 / 4))) (Num 10) True {0} (Num 1) False NoAnnihilation))))"
proof -
  let ?pp = "example_action (formed proton) (formed proton) None"
  let ?env = "example_env 3"
  let ?r = "\<lambda>lcut. add_nnbar ?env
          (add_resonances_and_two_to_two ?env (add_elastic ?env ?pp (Num 10) {0} lcut) True {0})
          NoAnnihilation"
  have eq: "add_all_processes ?env ?pp (sconst (Num (1 / 4))) (Num 10) True {0} lcut False
      NoAnnihilation = Inr (?r lcut, sconst (Num (1 / 4)))" for lcut
    by (rule add_all_processes_no_strings)
  have fresh: "\<forall>b \<in> set (collision_channels ?pp). get_type b \<noteq> Elastic"
    by (simp add: example_incoming)
  have none: "\<forall>b \<in> set (two_to_two_cross_sections ?env {0}). get_type b \<noteq> Elastic"
    by (simp add: example_two_to_two)
  have facts: "both_are_nucleons ?pp" "IncludedReactions_Elastic ?env = 0"
    "antiparticle_sign (ptype (fst (incoming_particles ?pp))) =
       antiparticle_sign (ptype (snd (incoming_particles ?pp)))"
    "sqrt_s ?env = Num 3"
    by (simp_all add: both_nucleons_pp example_env_def example_incoming)
  have low: "\<not> (\<exists>b \<in> set (collision_channels (?r (Num 3.5))). get_type b = Elastic)"
    using elastic_branch_cutoff [OF eq fresh none, of "Num 3.5"] by (simp add: facts)
  have high: "elastic_cross_section ?env ?pp (Num 10) \<in> set (collision_channels (?r (Num 1)))"
    using elastic_branch_cutoff [OF eq fresh none, of "Num 1"] by (simp add: facts)
  show ?thesis
    using low high by (simp add: eq)
qed

section \<open>Final states of string excitations: properties\<close>

subsection \<open>Inheritance from an unformed incoming particle\<close>

lemma tform_in_Num:
  assumes "formation_time (fst (incoming_particles act)) = Num t0"
    and "formation_time (snd (incoming_particles act)) = Num t1"
  shows "tform_in act = Num (max t0 t1)"
  using assms by (simp add: tform_in_def d_max_def max_def)

lemma fin_Num:
  assumes "formation_time (fst (incoming_particles act)) = Num t0"
    and "formation_time (snd (incoming_particles act)) = Num t1"
  shows "fin act = cross_section_scaling_factor
           (if t1 < t0 then fst (incoming_particles act) else snd (incoming_particles act))"
  using assms by (simp add: fin_def d_greater_def)

lemma adjust_outgoing_factor:
  "cross_section_scaling_factor (adjust_outgoing t_in f_in p) =
     d_mul f_in (cross_section_scaling_factor p)"
  by (simp add: adjust_outgoing_def Let_def)

lemma adjust_outgoing_ptype: "ptype (adjust_outgoing t_in f_in p) = ptype p"
  by (simp add: adjust_outgoing_def Let_def)

lemma adjust_outgoing_time:
  "formation_time (adjust_outgoing t_in f_in p) =
     (if d_less (formation_time p) t_in then t_in else formation_time p)"
  by (simp add: adjust_outgoing_def Let_def d_greater_def)

lemma adjust_outgoing_time_le:
  assumes "formation_time p \<noteq> NaN"
  shows "d_le (Num t) (formation_time (adjust_outgoing (Num t) f_in p))"
  using assms
  by (cases "formation_time p") (auto simp: adjust_outgoing_time d_le_def d_eq_def)

lemma adjust_unformed_outgoing:
  assumes "formation_time (fst (incoming_particles act)) = Num t0"
    and "formation_time (snd (incoming_particles act)) = Num t1"
    and "time_of_execution act = Num T"
    and "T < t0 \<or> T < t1"
  shows "outgoing_particles (adjust_unformed act) =
           map (adjust_outgoing (Num (max t0 t1)) (fin act)) (outgoing_particles act)"
  using assms by (auto simp: adjust_unformed_def tform_in_Num d_greater_def)

lemma adjust_unformed_fields:
  "string_process (adjust_unformed act) = string_process act"
  "incoming_particles (adjust_unformed act) = incoming_particles act"
  by (simp_all add: adjust_unformed_def)

lemma string_excitation_soft_result:
  assumes "string_excitation_soft env act rng = Inr (act', rng')"
  shows "\<exists>sp g. string_process act = Some sp \<and>
           act' = adjust_unformed (act\<lparr>outgoing_particles := get_final_state sp g,
                                        string_process := Some (sp\<lparr>internal := g\<rparr>)\<rparr>)"
  using assms
  by (auto simp: string_excitation_soft_def Let_def split: option.splits prod.splits if_splits)

text \<open>
  C5, for \<^verbatim>\<open>string_excitation_pythia\<close> (StringHard) and \<^verbatim>\<open>string_excitation_soft\<close>
  (StringSoft), with finite formation times \<open>t0\<close>, \<open>t1\<close> of the incoming particles and a finite
  execution time \<open>T\<close>: if \<open>t0\<close> or \<open>t1\<close> exceeds \<open>T\<close>, then the incoming particle with the
  later formation time is still forming, and every outgoing particle has its previously
  assigned scaling factor multiplied by the factor of that incoming particle, and the larger of
  its previous formation time and the later incoming formation time, which is at least the
  formation time of either incoming particle.  The previous values are those of the hadrons
  that the Pythia loop has pushed back, respectively of the collaborator's final state.
\<close>

theorem formation_propagation:
  fixes act :: "('g, 'z) ScatterAction_scheme" and t0 t1 T :: real
  defines "f \<equiv> cross_section_scaling_factor
           (if t1 < t0 then fst (incoming_particles act) else snd (incoming_particles act))"
  defines "inherits \<equiv> (\<lambda>q p.
           cross_section_scaling_factor q = d_mul f (cross_section_scaling_factor p) \<and>
           ptype q = ptype p \<and>
           formation_time q =
             (if d_less (formation_time p) (Num (max t0 t1)) then Num (max t0 t1)
              else formation_time p) \<and>
           (formation_time p \<noteq> NaN \<longrightarrow>
              d_le (Num t0) (formation_time q) \<and> d_le (Num t1) (formation_time q)))"
  assumes "formation_time (fst (incoming_particles act)) = Num t0"
    and "formation_time (snd (incoming_particles act)) = Num t1"
    and "time_of_execution act = Num T"
    and "T < t0 \<or> T < t1"
  shows "formation_time
           (if t1 < t0 then fst (incoming_particles act) else snd (incoming_particles act)) =
           Num (max t0 t1) \<and>
         T < max t0 t1 \<and>
         list_all2 inherits (outgoing_particles (string_excitation_pythia act hadrons))
           (outgoing_particles act @ hadrons) \<and>
         (\<forall>act' rng'. string_excitation_soft env act rng = Inr (act', rng') \<longrightarrow>
            (\<exists>sp. string_process act' = Some sp \<and>
               list_all2 inherits (outgoing_particles act') (get_final_state sp (internal sp))))"
proof -
  have step: "inherits (adjust_outgoing (Num (max t0 t1)) f p) p" for p
  proof -
    have "formation_time p \<noteq> NaN \<Longrightarrow>
        d_le (Num t0) (formation_time (adjust_outgoing (Num (max t0 t1)) f p)) \<and>
        d_le (Num t1) (formation_time (adjust_outgoing (Num (max t0 t1)) f p))"
      by (cases "formation_time p") (auto simp: adjust_outgoing_time d_le_def d_eq_def)
    then show ?thesis
      by (simp add: inherits_def adjust_outgoing_factor adjust_outgoing_ptype adjust_outgoing_time)
  qed
  have all: "list_all2 inherits (map (adjust_outgoing (Num (max t0 t1)) f) ps) ps" for ps
    by (simp add: list_all2_map1 list.rel_refl step)
  have fin: "fin a = f" if "incoming_particles a = incoming_particles act" for a :: "('g, 'z) ScatterAction_scheme"
    using that assms(3,4) by (simp add: fin_Num f_def)
  have py: "outgoing_particles (string_excitation_pythia act hadrons) =
      map (adjust_outgoing (Num (max t0 t1)) f) (outgoing_particles act @ hadrons)"
    unfolding string_excitation_pythia_def
    using adjust_unformed_outgoing
      [of "act\<lparr>outgoing_particles := outgoing_particles act @ hadrons\<rparr>" t0 t1 T] assms(3-6)
    by (simp add: fin)
  have soft: "\<exists>sp. string_process act' = Some sp \<and>
               list_all2 inherits (outgoing_particles act') (get_final_state sp (internal sp))"
    if "string_excitation_soft env act rng = Inr (act', rng')" for act' rng'
  proof -
    from string_excitation_soft_result [OF that]
    obtain sp g where a: "act' = adjust_unformed (act\<lparr>outgoing_particles := get_final_state sp g,
                                        string_process := Some (sp\<lparr>internal := g\<rparr>)\<rparr>)"
      by blast
    have "outgoing_particles act' =
        map (adjust_outgoing (Num (max t0 t1)) f) (get_final_state sp g)"
      unfolding a
      using adjust_unformed_outgoing
        [of "act\<lparr>outgoing_particles := get_final_state sp g,
                 string_process := Some (sp\<lparr>internal := g\<rparr>)\<rparr>" t0 t1 T] assms(3-6)
      by (simp add: fin)
    moreover have "string_process act' = Some (sp\<lparr>internal := g\<rparr>)"
      unfolding a by (simp add: adjust_unformed_fields)
    ultimately show ?thesis by (simp add: all)
  qed
  have "list_all2 inherits (outgoing_particles (string_excitation_pythia act hadrons))
           (outgoing_particles act @ hadrons)"
    unfolding py by (rule all)
  moreover have "formation_time
           (if t1 < t0 then fst (incoming_particles act) else snd (incoming_particles act)) =
           Num (max t0 t1)" "T < max t0 t1"
    using assms(3-6) by (auto simp: max_def)
  ultimately show ?thesis using soft by blast
qed

subsection \<open>The retry loop of the soft string excitation\<close>

lemma sample_subprocess_example:
  assumes "iproc \<le> 3"
  shows "sample_subprocess (example_string_process xs k) iproc g = (Suc g = k, Suc g)"
  using assms by (simp add: sample_subprocess_def example_string_process_def)

lemma retry_loop_done: "retry_loop sp iproc True ntry g = (True, ntry, g)"
  by (simp add: retry_loop.simps)

lemma retry_loop_bounded:
  "ntry \<le> ntry_max \<Longrightarrow> fst (snd (retry_loop sp iproc success ntry g)) \<le> ntry_max"
proof (induction sp iproc success ntry g rule: retry_loop.induct)
  case (1 sp iproc success ntry g)
  show ?case
  proof (cases "\<not> success \<and> ntry < ntry_max")
    case True
    obtain s' g' where sg: "sample_subprocess sp iproc g = (s', g')"
      by (cases "sample_subprocess sp iproc g")
    from True have "ntry + 1 \<le> ntry_max" by simp
    with "1.IH" [OF True sg [symmetric]] True sg show ?thesis
      by (subst retry_loop.simps) simp
  next
    case False
    with "1.prems" show ?thesis by (subst retry_loop.simps) auto
  qed
qed

lemma retry_loop_exit:
  "fst (retry_loop sp iproc success ntry g) \<or>
   ntry_max \<le> fst (snd (retry_loop sp iproc success ntry g))"
proof (induction sp iproc success ntry g rule: retry_loop.induct)
  case (1 sp iproc success ntry g)
  show ?case
  proof (cases "\<not> success \<and> ntry < ntry_max")
    case True
    obtain s' g' where sg: "sample_subprocess sp iproc g = (s', g')"
      by (cases "sample_subprocess sp iproc g")
    from "1.IH" [OF True sg [symmetric]] True sg show ?thesis
      by (subst (1 2) retry_loop.simps) simp
  next
    case False
    then show ?thesis by (subst (1 2) retry_loop.simps) auto
  qed
qed

lemma retry_loop_counting:
  assumes "n < k" "k \<le> ntry_max" "iproc \<le> 3"
  shows "retry_loop (example_string_process xs k) iproc False n n = (True, k, k)"
  using assms
proof (induction "k - n" arbitrary: n)
  case 0
  then show ?case by simp
next
  case (Suc d)
  have lt: "n < ntry_max" using Suc.prems by simp
  show ?case
  proof (cases "Suc n = k")
    case True
    then show ?thesis
      using lt Suc.prems(3)
      by (subst retry_loop.simps) (simp add: sample_subprocess_example retry_loop_done)
  next
    case False
    with Suc.prems have "Suc n < k" by simp
    moreover have "d = k - Suc n" using Suc.hyps(2) by simp
    ultimately have "retry_loop (example_string_process xs k) iproc False (Suc n) (Suc n) = (True, k, k)"
      using Suc.hyps(1) Suc.prems(2,3) by blast
    then show ?thesis
      using lt False Suc.prems(3)
      by (subst retry_loop.simps) (simp add: sample_subprocess_example)
  qed
qed

lemma select_iproc_example:
  "select_iproc [Num 0, Num 1, Num 2, Num 3, Num 4, Num 5] (Num 2) = Some 2"
  by (simp add: select_iproc_def d_ge_def d_le_def d_eq_def)

lemma example_soft_prefix:
  fixes a b :: ParticleData and xs :: "double \<times> double \<times> double" and k :: nat
  defines "sp \<equiv> example_string_process xs k"
  defines "act \<equiv> example_action a b (Some sp)"
  assumes "0 < k" "k \<le> ntry_max"
  shows "string_excitation_soft (example_env s) act (sconst (Num (1 / 2))) =
     (if k = ntry_max then Inl TooManyTries
      else Inr (adjust_unformed (act\<lparr>outgoing_particles := get_final_state sp k,
                                       string_process := Some (sp\<lparr>internal := k\<rparr>)\<rparr>),
                sconst (Num (1 / 2))))"
proof -
  have i: "init sp inc t gam g = 0" for inc t gam g
    by (simp add: sp_def example_string_process_def)
  have l: "retry_loop sp 2 False 0 0 = (True, k, k)"
    unfolding sp_def using assms(3,4) by (intro retry_loop_counting) simp_all
  have r: "d_mul (string_sub_cross_sections_sum act ! 4) (Num (1 / 2)) = Num 2"
    by (simp add: act_def example_action_def)
  have sums: "string_sub_cross_sections_sum act = [Num 0, Num 1, Num 2, Num 3, Num 4, Num 5]"
    by (simp add: act_def example_action_def)
  have p: "string_process act = Some sp" by (simp add: act_def example_action_def)
  show ?thesis
    by (simp add: string_excitation_soft_def p i uniform_def r sums select_iproc_example l)
qed

text \<open>
  C4 (a run in which some attempt among the first 10,000 succeeds completes without error and
  adopts the collaborator's final state).  With a collaborator whose first 9,999 samples are
  rejected and whose 10,000th sample is accepted, the loop ends with \<^verbatim>\<open>success\<close> true and
  \<open>ntry = 10000\<close>, and the test \<^verbatim>\<open>ntry == ntry_max\<close> after the loop raises
  "too many tries" all the same.  When the 9,999th sample is the accepted one, the function
  returns and the outgoing particles are the collaborator's final state.
\<close>

theorem soft_retry_fails_on_last_attempt:
  "retry_loop (example_string_process (Num (1 / 5), Num (1 / 5), Num (1 / 10)) 10000) 2 False 0 0 =
     (True, 10000, 10000) \<and>
   string_excitation_soft (example_env 6)
     (example_action (formed proton) (formed proton)
        (Some (example_string_process (Num (1 / 5), Num (1 / 5), Num (1 / 10)) 10000)))
     (sconst (Num (1 / 2))) = Inl TooManyTries \<and>
   (case string_excitation_soft (example_env 6)
     (example_action (formed proton) (formed proton)
        (Some (example_string_process (Num (1 / 5), Num (1 / 5), Num (1 / 10)) 9999)))
     (sconst (Num (1 / 2))) of
      Inl e \<Rightarrow> None
    | Inr (a, r) \<Rightarrow> Some (outgoing_particles a)) =
     Some [unformed pi_plus 2 (1 / 2), unformed proton 5 (1 / 4)]"
proof -
  have 1: "retry_loop (example_string_process (Num (1 / 5), Num (1 / 5), Num (1 / 10)) 10000)
      2 False 0 0 = (True, 10000, 10000)"
    by (rule retry_loop_counting) (simp_all add: ntry_max_def)
  have 2: "string_excitation_soft (example_env 6)
     (example_action (formed proton) (formed proton)
        (Some (example_string_process (Num (1 / 5), Num (1 / 5), Num (1 / 10)) 10000)))
     (sconst (Num (1 / 2))) = Inl TooManyTries"
    by (simp add: example_soft_prefix ntry_max_def)
  have 3: "(case string_excitation_soft (example_env 6)
     (example_action (formed proton) (formed proton)
        (Some (example_string_process (Num (1 / 5), Num (1 / 5), Num (1 / 10)) 9999)))
     (sconst (Num (1 / 2))) of
      Inl e \<Rightarrow> None
    | Inr (a, r) \<Rightarrow> Some (outgoing_particles a)) =
     Some [unformed pi_plus 2 (1 / 2), unformed proton 5 (1 / 4)]"
    by (subst example_soft_prefix)
      (simp_all add: ntry_max_def adjust_unformed_def tform_in_def
        example_incoming ptype_formed d_max_def d_greater_def example_string_process_def)
  from 1 2 3 show ?thesis by simp
qed

subsection \<open>Inheritance on a concrete action\<close>

text \<open>
  C5 for a proton that forms at time \<open>3\<close> with factor \<open>1/2\<close>, a formed proton and the execution
  time \<open>1\<close>: the outgoing factors \<open>1/2\<close> and \<open>1/4\<close> become \<open>1/4\<close> and \<open>1/8\<close>, the formation times
  \<open>2\<close> and \<open>5\<close> become \<open>3\<close> and \<open>5\<close>, in both functions.
\<close>

theorem formation_propagation_witness:
  "map cross_section_scaling_factor (outgoing_particles (string_excitation_pythia
      (example_action (unformed proton 3 (1 / 2)) (formed proton) None)
      [unformed pi_plus 2 (1 / 2), unformed proton 5 (1 / 4)])) = [Num (1 / 4), Num (1 / 8)] \<and>
   map formation_time (outgoing_particles (string_excitation_pythia
      (example_action (unformed proton 3 (1 / 2)) (formed proton) None)
      [unformed pi_plus 2 (1 / 2), unformed proton 5 (1 / 4)])) = [Num 3, Num 5] \<and>
   (case string_excitation_soft (example_env 6)
      (example_action (unformed proton 3 (1 / 2)) (formed proton)
         (Some (example_string_process (Num (1 / 5), Num (1 / 5), Num (1 / 10)) 2)))
      (sconst (Num (1 / 2))) of
      Inl e \<Rightarrow> None
    | Inr (a, r) \<Rightarrow> Some (map cross_section_scaling_factor (outgoing_particles a),
                          map formation_time (outgoing_particles a))) =
     Some ([Num (1 / 4), Num (1 / 8)], [Num 3, Num 5])"
proof -
  let ?in = "unformed proton 3 (1 / 2)"
  let ?sp = "example_string_process (Num (1 / 5), Num (1 / 5), Num (1 / 10)) 2"
  let ?hadrons = "[unformed pi_plus 2 (1 / 2), unformed proton 5 (1 / 4)]"
  have u: "formation_time (unformed t x y) = Num x"
    "cross_section_scaling_factor (unformed t x y) = Num y" for t x y
    by (simp_all add: unformed_def)
  have h: "formation_time (fst (incoming_particles (example_action ?in (formed proton) q))) = Num 3"
    "formation_time (snd (incoming_particles (example_action ?in (formed proton) q))) = Num 0"
    "time_of_execution (example_action ?in (formed proton) q) = Num 1"
    for q :: "nat StringProcess option"
    by (simp_all add: example_incoming ptype_formed u)
  have h4: "(1::real) < 3 \<or> (1::real) < 0" by simp
  have o: "outgoing_particles (example_action a b q) = []" for a b and q :: "nat StringProcess option"
    by (simp add: example_action_def)
  have py: "map cross_section_scaling_factor (outgoing_particles (string_excitation_pythia
        (example_action ?in (formed proton) None) ?hadrons)) = [Num (1 / 4), Num (1 / 8)] \<and>
      map formation_time (outgoing_particles (string_excitation_pythia
        (example_action ?in (formed proton) None) ?hadrons)) = [Num 3, Num 5]"
    using formation_propagation [OF h [of None] h4, where hadrons = ?hadrons,
        THEN conjunct2, THEN conjunct2, THEN conjunct1]
    by (clarsimp simp: o list_all2_Cons2 u example_incoming)
  have eq: "string_excitation_soft (example_env 6) (example_action ?in (formed proton) (Some ?sp))
      (sconst (Num (1 / 2))) =
      Inr (adjust_unformed ((example_action ?in (formed proton) (Some ?sp))
             \<lparr>outgoing_particles := get_final_state ?sp 2,
              string_process := Some (?sp\<lparr>internal := 2\<rparr>)\<rparr>), sconst (Num (1 / 2)))"
    by (simp add: example_soft_prefix ntry_max_def)
  have fs: "get_final_state ?sp g = ?hadrons" for g
    by (simp add: example_string_process_def)
  have so: "map cross_section_scaling_factor (outgoing_particles
        (adjust_unformed ((example_action ?in (formed proton) (Some ?sp))
             \<lparr>outgoing_particles := get_final_state ?sp 2,
              string_process := Some (?sp\<lparr>internal := 2\<rparr>)\<rparr>))) = [Num (1 / 4), Num (1 / 8)] \<and>
      map formation_time (outgoing_particles
        (adjust_unformed ((example_action ?in (formed proton) (Some ?sp))
             \<lparr>outgoing_particles := get_final_state ?sp 2,
              string_process := Some (?sp\<lparr>internal := 2\<rparr>)\<rparr>))) = [Num 3, Num 5]"
    using formation_propagation [OF h [of "Some ?sp"] h4, THEN conjunct2, THEN conjunct2,
        THEN conjunct2, rule_format, OF eq]
    by (clarsimp simp: adjust_unformed_fields fs list_all2_Cons2 u example_incoming)
  show ?thesis
    using py so by (simp add: eq)
qed

end
